theory Spec2Isabelle
  imports Complex_Main
begin

section \<open>Values, documents and the document store\<close>

text \<open>
  The managers of \<^verbatim>\<open>python-core\<close> keep every entity as a Python dict with ad-hoc
  keys and hand it to a MongoDB collection. A stored value is therefore a dynamically
  typed value, a document is an association list in insertion order, and a collection
  is the list of its documents in natural order.

  \<open>T t\<close> stands for the string \<^verbatim>\<open>datetime.isoformat()\<close> yields for the instant
  \<open>t\<close>, counted in microseconds from \<^verbatim>\<open>datetime.min\<close> (0001-01-01T00:00:00). The
  fields of an ISO string have fixed width, so comparing two such strings is comparing
  the instants; this is the only order the code ever uses on them. A timestamp field
  holding some other string is outside this data model.
\<close>

datatype val =
    Null
  | B bool
  | I int
  | R real
  | S string
  | T int
  | L "val list"
  | D "(string \<times> val) list"

type_synonym doc = "(string \<times> val) list"
type_synonym coll = "doc list"

datatype py_error =
    KeyError string
  | TypeError
  | IndexError
  | AttributeError
  | OverflowError
  | OperationFailure

text \<open>
  Every public method answers with a dict \<^verbatim>\<open>{"success": ...}\<close>: \<open>Inr\<close> carries the
  payload of a success, \<open>Inl\<close> the reason of \<^verbatim>\<open>{"success": False, "error": ...}\<close>.
\<close>

datatype failure =
    NotConfigured
  | NotFound
  | ConfidenceTooLow
  | Raised py_error

text \<open>\<^verbatim>\<open>d.get(k)\<close>, \<^verbatim>\<open>d[k]\<close> and \<^verbatim>\<open>d[k] = v\<close> on a dict.\<close>

definition dget :: "doc \<Rightarrow> string \<Rightarrow> val option" where
  "dget d k = map_of d k"

definition dget_or :: "doc \<Rightarrow> string \<Rightarrow> val \<Rightarrow> val" where
  "dget_or d k dflt = (case map_of d k of None \<Rightarrow> dflt | Some v \<Rightarrow> v)"

definition dsub :: "doc \<Rightarrow> string \<Rightarrow> py_error + val" where
  "dsub d k = (case map_of d k of None \<Rightarrow> Inl (KeyError k) | Some v \<Rightarrow> Inr v)"

fun dset :: "string \<Rightarrow> val \<Rightarrow> doc \<Rightarrow> doc" where
  "dset k v [] = [(k, v)]"
| "dset k v ((k', v') # d) = (if k' = k then (k, v) # d else (k', v') # dset k v d)"

text \<open>The update operator \<^verbatim>\<open>{"$set": fields}\<close>.\<close>

fun dsets :: "(string \<times> val) list \<Rightarrow> doc \<Rightarrow> doc" where
  "dsets [] d = d"
| "dsets ((k, v) # kvs) d = dsets kvs (dset k v d)"

text \<open>Python truthiness, as used by \<^verbatim>\<open>if x\<close>, \<^verbatim>\<open>x or y\<close> and \<^verbatim>\<open>any\<close>.\<close>

fun truthy :: "val \<Rightarrow> bool" where
  "truthy Null = False"
| "truthy (B b) = b"
| "truthy (I n) = (n \<noteq> 0)"
| "truthy (R r) = (r \<noteq> 0)"
| "truthy (S s) = (s \<noteq> [])"
| "truthy (T t) = True"
| "truthy (L xs) = (xs \<noteq> [])"
| "truthy (D kvs) = (kvs \<noteq> [])"

subsection \<open>The operations of a collection\<close>

text \<open>
  An equality condition \<^verbatim>\<open>{field: v}\<close> of a MongoDB filter holds when the field
  equals \<open>v\<close> or is an array with \<open>v\<close> among its elements; a missing field equals
  only \<^verbatim>\<open>null\<close>.
\<close>

definition mongo_eq :: "val option \<Rightarrow> val \<Rightarrow> bool" where
  "mongo_eq fo v =
     (case fo of
        None \<Rightarrow> v = Null
      | Some (L xs) \<Rightarrow> L xs = v \<or> List.member xs v
      | Some x \<Rightarrow> x = v)"

text \<open>
  \<^verbatim>\<open>{"timestamp": {"$lt": cutoff}}\<close> and \<^verbatim>\<open>{"$gte": cutoff}\<close> against an ISO string:
  a range condition only matches values of the operand's type.
\<close>

definition ts_lt :: "doc \<Rightarrow> int \<Rightarrow> bool" where
  "ts_lt d cutoff = (case dget d ''timestamp'' of Some (T t) \<Rightarrow> t < cutoff | _ \<Rightarrow> False)"

definition ts_gte :: "doc \<Rightarrow> int \<Rightarrow> bool" where
  "ts_gte d cutoff = (case dget d ''timestamp'' of Some (T t) \<Rightarrow> cutoff \<le> t | _ \<Rightarrow> False)"

definition find :: "(doc \<Rightarrow> bool) \<Rightarrow> coll \<Rightarrow> coll" where
  "find q c = filter q c"

definition find_one :: "(doc \<Rightarrow> bool) \<Rightarrow> coll \<Rightarrow> doc option" where
  "find_one q c = List.find q c"

definition insert_one :: "doc \<Rightarrow> coll \<Rightarrow> coll" where
  "insert_one d c = c @ [d]"

text \<open>\<^verbatim>\<open>update_one\<close> rewrites the first document the filter matches.\<close>

fun update_one :: "(doc \<Rightarrow> bool) \<Rightarrow> (doc \<Rightarrow> doc) \<Rightarrow> coll \<Rightarrow> coll" where
  "update_one q u [] = []"
| "update_one q u (d # ds) = (if q d then u d # ds else d # update_one q u ds)"

definition matched_count :: "(doc \<Rightarrow> bool) \<Rightarrow> coll \<Rightarrow> nat" where
  "matched_count q c = (if list_ex q c then 1 else 0)"

definition update_many :: "(doc \<Rightarrow> bool) \<Rightarrow> (doc \<Rightarrow> doc) \<Rightarrow> coll \<Rightarrow> coll" where
  "update_many q u c = map (\<lambda>d. if q d then u d else d) c"

definition modified_count :: "(doc \<Rightarrow> bool) \<Rightarrow> (doc \<Rightarrow> doc) \<Rightarrow> coll \<Rightarrow> nat" where
  "modified_count q u c = length (filter (\<lambda>d. q d \<and> u d \<noteq> d) c)"

text \<open>
  \<^verbatim>\<open>update_one(..., upsert=True)\<close>: when nothing matches, the document made of the
  filter's equality fields and the \<^verbatim>\<open>$set\<close> fields is inserted.
\<close>

definition upsert_one :: "(string \<times> val) list \<Rightarrow> (string \<times> val) list \<Rightarrow> coll \<Rightarrow> coll" where
  "upsert_one flt fields c =
     (let q = (\<lambda>d. list_all (\<lambda>(k, v). mongo_eq (dget d k) v) flt)
      in if list_ex q c then update_one q (dsets fields) c
         else insert_one (dsets fields flt) c)"

text \<open>\<^verbatim>\<open>cursor.limit(n)\<close>: zero means no limit, a negative limit counts as its magnitude.\<close>

definition mongo_limit :: "int \<Rightarrow> 'a list \<Rightarrow> 'a list" where
  "mongo_limit n xs = (if n = 0 then xs else take (nat \<bar>n\<bar>) xs)"

text \<open>A Python slice \<^verbatim>\<open>xs[:n]\<close>.\<close>

definition py_take :: "int \<Rightarrow> 'a list \<Rightarrow> 'a list" where
  "py_take n xs = (if 0 \<le> n then take (nat n) xs else take (length xs - nat (- n)) xs)"

text \<open>
  A stable sort into descending order of a key, the strict order \<open>lt\<close> given on the keys:
  Python's \<^verbatim>\<open>list.sort(key=..., reverse=True)\<close> and \<^verbatim>\<open>sorted\<close> keep elements of equal
  key in their original order, also when reversed. Sorting ascending is the same with
  the order turned around.
\<close>

fun insert_desc :: "('k \<Rightarrow> 'k \<Rightarrow> bool) \<Rightarrow> ('a \<Rightarrow> 'k) \<Rightarrow> 'a \<Rightarrow> 'a list \<Rightarrow> 'a list" where
  "insert_desc lt key x [] = [x]"
| "insert_desc lt key x (y # ys) =
     (if lt (key x) (key y) then y # insert_desc lt key x ys else x # y # ys)"

definition sort_desc :: "('k \<Rightarrow> 'k \<Rightarrow> bool) \<Rightarrow> ('a \<Rightarrow> 'k) \<Rightarrow> 'a list \<Rightarrow> 'a list" where
  "sort_desc lt key xs = foldr (insert_desc lt key) xs []"

definition sort_asc :: "('k \<Rightarrow> 'k \<Rightarrow> bool) \<Rightarrow> ('a \<Rightarrow> 'k) \<Rightarrow> 'a list \<Rightarrow> 'a list" where
  "sort_asc lt key xs = sort_desc (\<lambda>a b. lt b a) key xs"

subsection \<open>The database\<close>

record database =
  memories :: coll
  events :: coll
  user_preferences :: coll
  preference_history :: coll
  user_patterns :: coll
  suggestions :: coll

text \<open>
  What the code takes from its surroundings: Python's rendering of a format string,
  the regular expressions of the database engine (\<open>None\<close> for a pattern it rejects) and
  scikit-learn's TF-IDF vectoriser with cosine similarity (\<open>None\<close> when fitting
  raises). \<open>tfidf_cosine q cs\<close> is the row of similarities between the query and each
  content, the vectoriser fitted on the query and the contents together.
\<close>

record env =
  format :: "string \<Rightarrow> val list \<Rightarrow> string"
  regex_i :: "string \<Rightarrow> (string \<Rightarrow> bool) option"
  tfidf_cosine :: "string \<Rightarrow> val list \<Rightarrow> real list option"

subsection \<open>Dates\<close>

text \<open>
  \<^verbatim>\<open>timedelta(days=n)\<close> refuses more than 999999999 days, and a \<^verbatim>\<open>datetime\<close> lies
  between 0001-01-01 and 9999-12-31T23:59:59.999999 (3652059 days); outside, the
  arithmetic raises \<^verbatim>\<open>OverflowError\<close>. One reading of the clock, \<open>now\<close>, serves a
  whole call.
\<close>

definition day_us :: int where
  "day_us = 86400000000"

definition dt_max :: int where
  "dt_max = 3652059 * day_us - 1"

definition timedelta_days :: "int \<Rightarrow> py_error + int" where
  "timedelta_days n = (if \<bar>n\<bar> > 999999999 then Inl OverflowError else Inr (n * day_us))"

definition dt_minus :: "int \<Rightarrow> int \<Rightarrow> py_error + int" where
  "dt_minus t delta =
     (let r = t - delta in if r < 0 \<or> dt_max < r then Inl OverflowError else Inr r)"

definition days_before :: "int \<Rightarrow> int \<Rightarrow> py_error + int" where
  "days_before now n =
     (case timedelta_days n of Inl e \<Rightarrow> Inl e | Inr delta \<Rightarrow> dt_minus now delta)"

text \<open>\<^verbatim>\<open>str(n)\<close> of a natural number, for the ids made of the epoch's milliseconds.\<close>

definition digit_char :: "nat \<Rightarrow> char" where
  "digit_char n = ''0123456789'' ! n"

fun str_nat :: "nat \<Rightarrow> string" where
  "str_nat n = (if n < 10 then [digit_char n] else str_nat (n div 10) @ [digit_char (n mod 10)])"

declare str_nat.simps [simp del]

subsection \<open>Strings\<close>

text \<open>
  \<^verbatim>\<open>str.lower\<close> on the ASCII letters (bytes beyond ASCII are left as they are), the
  test \<^verbatim>\<open>a in b\<close> on strings, and the binary order of strings.
\<close>

definition lower_char :: "char \<Rightarrow> char" where
  "lower_char c =
     (case map_of (zip ''ABCDEFGHIJKLMNOPQRSTUVWXYZ'' ''abcdefghijklmnopqrstuvwxyz'') c of
        None \<Rightarrow> c
      | Some l \<Rightarrow> l)"

definition lower :: "string \<Rightarrow> string" where
  "lower s = map lower_char s"

fun is_substr :: "string \<Rightarrow> string \<Rightarrow> bool" where
  "is_substr xs [] = (xs = [])"
| "is_substr xs (y # ys) = (take (length xs) (y # ys) = xs \<or> is_substr xs ys)"

fun str_lt :: "string \<Rightarrow> string \<Rightarrow> bool" where
  "str_lt [] [] = False"
| "str_lt [] (y # ys) = True"
| "str_lt (x # xs) [] = False"
| "str_lt (x # xs) (y # ys) =
     ((of_char x :: nat) < of_char y \<or> (x = y \<and> str_lt xs ys))"

section \<open>The memory manager\<close>

text \<open>
  \<^verbatim>\<open>MemoryManager\<close> of \<^verbatim>\<open>memory/memory_manager.py\<close>. Its \<^verbatim>\<open>db\<close> is \<open>None\<close> or a
  database; \<open>millis\<close> is \<^verbatim>\<open>int(time.time() * 1000)\<close>.
\<close>

definition save_memory ::
  "int \<Rightarrow> nat \<Rightarrow> database option \<Rightarrow> string \<Rightarrow> string \<Rightarrow> doc option \<Rightarrow> string list option
     \<Rightarrow> string \<Rightarrow> (failure + string) \<times> database option" where
  "save_memory now millis dbo memory_type content context tags importance =
     (case dbo of
        None \<Rightarrow> (Inl NotConfigured, None)
      | Some db \<Rightarrow>
          let memory =
                [(''memory_id'', S (''mem_'' @ str_nat millis)),
                 (''type'', S memory_type),
                 (''content'', S content),
                 (''timestamp'', T now),
                 (''context'', D (case context of None \<Rightarrow> [] | Some c \<Rightarrow> c)),
                 (''tags'', L (map S (case tags of None \<Rightarrow> [] | Some ts \<Rightarrow> ts))),
                 (''importance'', S importance),
                 (''relevance_score'', R 1),
                 (''expiry_date'', Null),
                 (''archived'', B False),
                 (''access_count'', I 0),
                 (''last_accessed'', Null)]
          in (Inr (''mem_'' @ str_nat millis),
              Some (db\<lparr>memories := insert_one memory (memories db)\<rparr>)))"

text \<open>The optional filter \<^verbatim>\<open>if memory_type: query["type"] = memory_type\<close>.\<close>

definition type_filter :: "string option \<Rightarrow> doc \<Rightarrow> bool" where
  "type_filter memory_type d =
     (case memory_type of
        None \<Rightarrow> True
      | Some ty \<Rightarrow> if ty = [] then True else mongo_eq (dget d ''type'') (S ty))"

subsection \<open>Semantic search\<close>

text \<open>
  The key of the final sort is the tuple
  \<^verbatim>\<open>(-similarity_score, rank of importance, timestamp)\<close>, compared as Python compares
  tuples, and the list is sorted with \<^verbatim>\<open>reverse=True\<close>. A missing timestamp counts as
  the empty string, below every ISO string.
\<close>

definition importance_rank :: "doc \<Rightarrow> nat" where
  "importance_rank m =
     (case dget_or m ''importance'' (S ''low'') of
        S s \<Rightarrow> if s = ''high'' then 2 else if s = ''medium'' then 1 else 0
      | _ \<Rightarrow> 0)"

definition unhashable :: "val \<Rightarrow> bool" where
  "unhashable v = (case v of L xs \<Rightarrow> True | D kvs \<Rightarrow> True | _ \<Rightarrow> False)"

definition ts_key :: "doc \<Rightarrow> int option" where
  "ts_key m = (case dget m ''timestamp'' of Some (T t) \<Rightarrow> Some t | _ \<Rightarrow> None)"

definition opt_lt :: "int option \<Rightarrow> int option \<Rightarrow> bool" where
  "opt_lt a b =
     (case b of None \<Rightarrow> False | Some y \<Rightarrow> (case a of None \<Rightarrow> True | Some x \<Rightarrow> x < y))"

definition similarity_of :: "doc \<Rightarrow> real" where
  "similarity_of m = (case dget_or m ''similarity_score'' (I 0) of R r \<Rightarrow> r | _ \<Rightarrow> 0)"

definition search_key :: "doc \<Rightarrow> real \<times> nat \<times> int option" where
  "search_key m = (- similarity_of m, importance_rank m, ts_key m)"

definition search_key_lt :: "real \<times> nat \<times> int option \<Rightarrow> real \<times> nat \<times> int option \<Rightarrow> bool" where
  "search_key_lt a b =
     (case a of (a1, a2, a3) \<Rightarrow> (case b of (b1, b2, b3) \<Rightarrow>
        a1 < b1 \<or> (a1 = b1 \<and> (a2 < b2 \<or> (a2 = b2 \<and> opt_lt a3 b3)))))"

definition semantic_search ::
  "env \<Rightarrow> database option \<Rightarrow> string \<Rightarrow> string option \<Rightarrow> int \<Rightarrow> real \<Rightarrow> failure + doc list" where
  "semantic_search ev dbo query memory_type limit threshold =
     (case dbo of
        None \<Rightarrow> Inl NotConfigured
      | Some db \<Rightarrow>
          let all_memories =
                find (\<lambda>d. mongo_eq (dget d ''archived'') (B False) \<and> type_filter memory_type d)
                  (memories db)
          in if all_memories = [] then Inr []
             else
               let memory_contents = map (\<lambda>m. dget_or m ''content'' (S [])) all_memories
               in if \<not> list_ex truthy memory_contents then Inr []
                  else
                    (case tfidf_cosine ev query memory_contents of
                       None \<Rightarrow> Inr []
                     | Some similarities \<Rightarrow>
                         if length similarities < length all_memories
                         then Inl (Raised IndexError)
                         else
                           let results =
                                 map (\<lambda>(m, s). dset ''similarity_score'' (R s) m)
                                   (filter (\<lambda>(m, s). threshold \<le> s) (zip all_memories similarities))
                           in if list_ex (\<lambda>m. unhashable (dget_or m ''importance'' (S ''low''))) results
                              then Inl (Raised TypeError)
                              else Inr (py_take limit (sort_desc search_key_lt search_key results))))"

subsection \<open>Search by content or tag\<close>

text \<open>
  The cursor is sorted by \<^verbatim>\<open>[("importance", -1), ("timestamp", -1)]\<close>: the engine
  orders values by their BSON class first (null and missing, numbers, strings,
  objects, arrays, booleans) and inside a class by value. The model keeps documents of
  equal keys in their stored order.
\<close>

fun bson_class :: "val option \<Rightarrow> nat" where
  "bson_class None = 0"
| "bson_class (Some Null) = 0"
| "bson_class (Some (I n)) = 1"
| "bson_class (Some (R r)) = 1"
| "bson_class (Some (S s)) = 2"
| "bson_class (Some (T t)) = 2"
| "bson_class (Some (D kvs)) = 3"
| "bson_class (Some (L xs)) = 4"
| "bson_class (Some (B b)) = 5"

fun same_class_lt :: "val option \<Rightarrow> val option \<Rightarrow> bool" where
  "same_class_lt (Some (I m)) (Some (I n)) = (m < n)"
| "same_class_lt (Some (I m)) (Some (R r)) = (real_of_int m < r)"
| "same_class_lt (Some (R r)) (Some (I n)) = (r < real_of_int n)"
| "same_class_lt (Some (R r)) (Some (R q)) = (r < q)"
| "same_class_lt (Some (S s)) (Some (S t)) = str_lt s t"
| "same_class_lt (Some (T s)) (Some (T t)) = (s < t)"
| "same_class_lt (Some (B a)) (Some (B b)) = (\<not> a \<and> b)"
| "same_class_lt a b = False"

definition bson_lt :: "val option \<Rightarrow> val option \<Rightarrow> bool" where
  "bson_lt a b = (bson_class a < bson_class b \<or> (bson_class a = bson_class b \<and> same_class_lt a b))"

definition importance_timestamp_lt :: "doc \<Rightarrow> doc \<Rightarrow> bool" where
  "importance_timestamp_lt a b =
     (bson_lt (dget a ''importance'') (dget b ''importance'')
      \<or> (\<not> bson_lt (dget b ''importance'') (dget a ''importance'')
          \<and> bson_lt (dget a ''timestamp'') (dget b ''timestamp'')))"

text \<open>The score the loop over the regex results attaches to a memory.\<close>

definition match_score :: "string \<Rightarrow> doc \<Rightarrow> py_error + real" where
  "match_score query memory =
     (case dget_or memory ''content'' (S []) of
        S content \<Rightarrow>
          if is_substr (lower query) (lower content) then Inr (95 / 100)
          else
            (case dget_or memory ''tags'' (L []) of
               L tags \<Rightarrow> Inr (if list_ex (\<lambda>tag. tag = S (lower query)) tags then 85 / 100 else 1)
             | S tags \<Rightarrow> Inr (if list_ex (\<lambda>ch. [ch] = lower query) tags then 85 / 100 else 1)
             | D tags \<Rightarrow> Inr (if list_ex (\<lambda>(k, v). k = lower query) tags then 85 / 100 else 1)
             | _ \<Rightarrow> Inl TypeError)
      | _ \<Rightarrow> Inl AttributeError)"

fun add_match_scores :: "string \<Rightarrow> doc list \<Rightarrow> py_error + doc list" where
  "add_match_scores query [] = Inr []"
| "add_match_scores query (m # ms) =
     (case match_score query m of
        Inl e \<Rightarrow> Inl e
      | Inr sc \<Rightarrow>
          (case add_match_scores query ms of
             Inl e \<Rightarrow> Inl e
           | Inr ms' \<Rightarrow> Inr (dset ''match_score'' (R sc) m # ms')))"

definition content_regex :: "(string \<Rightarrow> bool) \<Rightarrow> doc \<Rightarrow> bool" where
  "content_regex rx d =
     (case dget d ''content'' of
        Some (S c) \<Rightarrow> rx c
      | Some (L xs) \<Rightarrow> list_ex (\<lambda>x. case x of S c \<Rightarrow> rx c | _ \<Rightarrow> False) xs
      | _ \<Rightarrow> False)"

text \<open>The cursor \<^verbatim>\<open>regex_results\<close> of the first, literal search.\<close>

definition regex_results ::
  "(string \<Rightarrow> bool) \<Rightarrow> database \<Rightarrow> string \<Rightarrow> string option \<Rightarrow> int \<Rightarrow> doc list" where
  "regex_results rx db query memory_type limit =
     mongo_limit limit
       (sort_desc importance_timestamp_lt (\<lambda>d. d)
          (find (\<lambda>d. mongo_eq (dget d ''archived'') (B False)
                      \<and> (content_regex rx d \<or> mongo_eq (dget d ''tags'') (S (lower query)))
                      \<and> type_filter memory_type d)
             (memories db)))"

definition scored_results :: "string \<Rightarrow> doc list \<Rightarrow> failure + doc list" where
  "scored_results query ms =
     (case add_match_scores query ms of
        Inl e \<Rightarrow> Inl (Raised e)
      | Inr ms' \<Rightarrow> Inr ms')"

definition search_memories ::
  "env \<Rightarrow> database option \<Rightarrow> string \<Rightarrow> string option \<Rightarrow> int \<Rightarrow> bool \<Rightarrow> failure + doc list" where
  "search_memories ev dbo query memory_type limit use_semantic =
     (case dbo of
        None \<Rightarrow> Inl NotConfigured
      | Some db \<Rightarrow>
          (case regex_i ev query of
             None \<Rightarrow> Inl (Raised OperationFailure)
           | Some rx \<Rightarrow>
               if use_semantic \<and> regex_results rx db query memory_type limit = []
               then (case semantic_search ev dbo query memory_type limit (3 / 10) of
                       Inr ms \<Rightarrow> Inr ms
                     | Inl f \<Rightarrow> scored_results query (regex_results rx db query memory_type limit))
               else scored_results query (regex_results rx db query memory_type limit)))"

subsection \<open>Lookup by id\<close>

text \<open>The update \<^verbatim>\<open>{"$inc": {"access_count": 1}}\<close>: the engine refuses a field that is no number.\<close>

definition inc_access_count :: "doc \<Rightarrow> py_error + doc" where
  "inc_access_count d =
     (case dget d ''access_count'' of
        None \<Rightarrow> Inr (dset ''access_count'' (I 1) d)
      | Some (I n) \<Rightarrow> Inr (dset ''access_count'' (I (n + 1)) d)
      | Some (R r) \<Rightarrow> Inr (dset ''access_count'' (R (r + 1)) d)
      | Some v \<Rightarrow> Inl OperationFailure)"

definition get_memory ::
  "int \<Rightarrow> database option \<Rightarrow> string \<Rightarrow> (failure + doc) \<times> database option" where
  "get_memory now dbo memory_id =
     (case dbo of
        None \<Rightarrow> (Inl NotConfigured, None)
      | Some db \<Rightarrow>
          let q = (\<lambda>d. mongo_eq (dget d ''memory_id'') (S memory_id))
          in (case find_one q (memories db) of
                None \<Rightarrow> (Inl NotFound, Some db)
              | Some d \<Rightarrow>
                  (case inc_access_count d of
                     Inl e \<Rightarrow> (Inl (Raised e), Some db)
                   | Inr d' \<Rightarrow>
                       let c = update_one q (\<lambda>d. dset ''last_accessed'' (T now) d') (memories db)
                       in (case find_one q c of
                             None \<Rightarrow> (Inl NotFound, Some (db\<lparr>memories := c\<rparr>))
                           | Some memory \<Rightarrow> (Inr memory, Some (db\<lparr>memories := c\<rparr>))))))"

subsection \<open>The retention sweep\<close>

definition retention_policies :: "int \<Rightarrow> (string \<times> int) list" where
  "retention_policies days_to_keep =
     [(''conversation'', days_to_keep),
      (''preference'', days_to_keep * 3),
      (''fact'', days_to_keep * 10),
      (''learning'', days_to_keep * 5),
      (''event'', days_to_keep * 2)]"

definition sweep_query :: "string \<Rightarrow> int \<Rightarrow> doc \<Rightarrow> bool" where
  "sweep_query memory_type type_cutoff d =
     (mongo_eq (dget d ''type'') (S memory_type)
      \<and> ts_lt d type_cutoff
      \<and> mongo_eq (dget d ''archived'') (B False)
      \<and> mongo_eq (dget d ''importance'') (S ''low''))"

definition archive :: "int \<Rightarrow> doc \<Rightarrow> doc" where
  "archive now d = dsets [(''archived'', B True), (''archived_at'', T now)] d"

text \<open>
  The loop over the policies. An exception leaves it with the collection as the
  earlier rounds have left it.
\<close>

fun sweep :: "int \<Rightarrow> (string \<times> int) list \<Rightarrow> coll \<Rightarrow> nat \<Rightarrow> (py_error + nat) \<times> coll" where
  "sweep now [] c archived_count = (Inr archived_count, c)"
| "sweep now ((memory_type, retention_days) # ps) c archived_count =
     (case days_before now retention_days of
        Inl e \<Rightarrow> (Inl e, c)
      | Inr type_cutoff \<Rightarrow>
          sweep now ps
            (update_many (sweep_query memory_type type_cutoff) (archive now) c)
            (archived_count + modified_count (sweep_query memory_type type_cutoff) (archive now) c))"

definition cleanup_old_memories ::
  "int \<Rightarrow> database option \<Rightarrow> int
     \<Rightarrow> (failure + nat \<times> (string \<times> int) list) \<times> database option" where
  "cleanup_old_memories now dbo days_to_keep =
     (case dbo of
        None \<Rightarrow> (Inl NotConfigured, None)
      | Some db \<Rightarrow>
          (case days_before now days_to_keep of
             Inl e \<Rightarrow> (Inl (Raised e), Some db)
           | Inr cutoff_date \<Rightarrow>
               (case sweep now (retention_policies days_to_keep) (memories db) 0 of
                  (Inl e, c) \<Rightarrow> (Inl (Raised e), Some (db\<lparr>memories := c\<rparr>))
                | (Inr archived_count, c) \<Rightarrow>
                    (Inr (archived_count, retention_policies days_to_keep),
                     Some (db\<lparr>memories := c\<rparr>)))))"

text \<open>
  Whether one of the policies of a sweep selects a document, and the condition the
  policies amount to for a memory of type \<open>ty\<close> stamped \<open>ts\<close>: the base window times
  1 for a conversation, 3 for a preference, 10 for a fact, 5 for a learning and 2 for an
  event.
\<close>

fun swept :: "int \<Rightarrow> (string \<times> int) list \<Rightarrow> doc \<Rightarrow> bool" where
  "swept now [] d = False"
| "swept now ((ty, days) # ps) d =
     ((case days_before now days of Inl e \<Rightarrow> False | Inr cutoff \<Rightarrow> sweep_query ty cutoff d)
      \<or> swept now ps d)"

definition past_retention :: "int \<Rightarrow> int \<Rightarrow> string \<Rightarrow> int \<Rightarrow> bool" where
  "past_retention now days_to_keep ty ts =
     (ty = ''conversation'' \<and> ts < now - days_to_keep * 1 * day_us
      \<or> ty = ''preference'' \<and> ts < now - days_to_keep * 3 * day_us
      \<or> ty = ''fact'' \<and> ts < now - days_to_keep * 10 * day_us
      \<or> ty = ''learning'' \<and> ts < now - days_to_keep * 5 * day_us
      \<or> ty = ''event'' \<and> ts < now - days_to_keep * 2 * day_us)"

section \<open>The suggestion engine\<close>

text \<open>
  \<^verbatim>\<open>SuggestionEngine\<close> of \<^verbatim>\<open>automation/suggestion_engine.py\<close>. The expression
  \<^verbatim>\<open>max(0, min(1, x))\<close> yields the integer bound when it clamps and \<open>x\<close> itself
  otherwise.
\<close>

definition clamp01 :: "real \<Rightarrow> val" where
  "clamp01 x = (if 1 \<le> x then I 1 else if x \<le> 0 then I 0 else R x)"

definition create_suggestion ::
  "int \<Rightarrow> nat \<Rightarrow> database option \<Rightarrow> string \<Rightarrow> string \<Rightarrow> string \<Rightarrow> real \<Rightarrow> doc option
     \<Rightarrow> (failure + string) \<times> database option" where
  "create_suggestion now millis dbo suggestion_type title description confidence_score suggested_action =
     (case dbo of
        None \<Rightarrow> (Inl NotConfigured, None)
      | Some db \<Rightarrow>
          let suggestion =
                [(''suggestion_id'', S (''sugg_'' @ str_nat millis)),
                 (''type'', S suggestion_type),
                 (''title'', S title),
                 (''description'', S description),
                 (''confidence_score'', clamp01 confidence_score),
                 (''suggested_action'', D (case suggested_action of None \<Rightarrow> [] | Some a \<Rightarrow> a)),
                 (''status'', S ''pending''),
                 (''created_date'', T now),
                 (''shown_date'', Null),
                 (''response_date'', Null),
                 (''user_response'', Null),
                 (''helpful'', Null)]
          in (Inr (''sugg_'' @ str_nat millis),
              Some (db\<lparr>suggestions := insert_one suggestion (suggestions db)\<rparr>)))"

definition update_data :: "int \<Rightarrow> string \<Rightarrow> bool option \<Rightarrow> (string \<times> val) list" where
  "update_data now response helpful =
     [(''status'', S ''responded''), (''user_response'', S response), (''response_date'', T now)]
     @ (case helpful of None \<Rightarrow> [] | Some h \<Rightarrow> [(''helpful'', B h)])"

definition respond_to_suggestion ::
  "int \<Rightarrow> database option \<Rightarrow> string \<Rightarrow> string \<Rightarrow> bool option
     \<Rightarrow> (failure + string) \<times> database option" where
  "respond_to_suggestion now dbo suggestion_id response helpful =
     (case dbo of
        None \<Rightarrow> (Inl NotConfigured, None)
      | Some db \<Rightarrow>
          (Inr (''Response recorded: '' @ response),
           Some (db\<lparr>suggestions :=
                   update_one (\<lambda>d. mongo_eq (dget d ''suggestion_id'') (S suggestion_id))
                     (dsets (update_data now response helpful)) (suggestions db)\<rparr>)))"

section \<open>The preference manager\<close>

text \<open>\<^verbatim>\<open>PreferenceManager\<close> of \<^verbatim>\<open>memory/preference_manager.py\<close>.\<close>

definition preference_doc :: "int \<Rightarrow> nat \<Rightarrow> string \<Rightarrow> string \<Rightarrow> val \<Rightarrow> string \<Rightarrow> real \<Rightarrow> doc" where
  "preference_doc now millis category key v source confidence =
     [(''preference_id'', S (''pref_'' @ str_nat millis)),
      (''category'', S category),
      (''key'', S key),
      (''value'', v),
      (''set_date'', T now),
      (''modified_date'', T now),
      (''source'', S source),
      (''confidence'', clamp01 confidence),
      (''version'', I 1)]"

definition log_preference_change :: "int \<Rightarrow> string \<Rightarrow> string \<Rightarrow> val \<Rightarrow> string \<Rightarrow> coll \<Rightarrow> coll" where
  "log_preference_change now category key v source history =
     insert_one
       [(''timestamp'', T now), (''category'', S category), (''key'', S key),
        (''value'', v), (''source'', S source)]
       history"

definition set_preference ::
  "int \<Rightarrow> nat \<Rightarrow> database option \<Rightarrow> string \<Rightarrow> string \<Rightarrow> val \<Rightarrow> string \<Rightarrow> real
     \<Rightarrow> (failure + string) \<times> database option" where
  "set_preference now millis dbo category key v source confidence =
     (case dbo of
        None \<Rightarrow> (Inl NotConfigured, None)
      | Some db \<Rightarrow>
          (Inr (''pref_'' @ str_nat millis),
           Some (db\<lparr>user_preferences :=
                     upsert_one [(''category'', S category), (''key'', S key)]
                       (preference_doc now millis category key v source confidence)
                       (user_preferences db),
                   preference_history :=
                     log_preference_change now category key v source (preference_history db)\<rparr>)))"

definition learn_preference ::
  "int \<Rightarrow> nat \<Rightarrow> database option \<Rightarrow> string \<Rightarrow> string \<Rightarrow> val \<Rightarrow> real
     \<Rightarrow> (failure + string) \<times> database option" where
  "learn_preference now millis dbo category key v confidence =
     (if confidence < 3 / 10 then (Inl ConfidenceTooLow, dbo)
      else set_preference now millis dbo category key v ''inferred'' confidence)"

definition preference_query :: "string \<Rightarrow> string \<Rightarrow> doc \<Rightarrow> bool" where
  "preference_query category key d =
     (mongo_eq (dget d ''category'') (S category) \<and> mongo_eq (dget d ''key'') (S key))"

definition apply_preference ::
  "int \<Rightarrow> database option \<Rightarrow> string \<Rightarrow> string \<Rightarrow> (failure + unit) \<times> database option" where
  "apply_preference now dbo category key =
     (case dbo of
        None \<Rightarrow> (Inl NotConfigured, None)
      | Some db \<Rightarrow>
          if matched_count (preference_query category key) (user_preferences db) = 0
          then (Inl NotFound, Some db)
          else
            (Inr (),
             Some (db\<lparr>user_preferences :=
                       update_one (preference_query category key)
                         (dsets [(''source'', S ''manual''), (''modified_date'', T now),
                                 (''confidence'', R 1)])
                         (user_preferences db)\<rparr>)))"

text \<open>What \<^verbatim>\<open>get_preference\<close> finds under a category and key.\<close>

definition stored_preference :: "database \<Rightarrow> string \<Rightarrow> string \<Rightarrow> doc option" where
  "stored_preference db category key = find_one (preference_query category key) (user_preferences db)"

text \<open>
  A field of the preference stored under a category and key, and whether its
  confidence is a number between 0 and 1.
\<close>

definition stored_field :: "database option \<Rightarrow> string \<Rightarrow> string \<Rightarrow> string \<Rightarrow> val option" where
  "stored_field dbo category key f =
     (case dbo of
        None \<Rightarrow> None
      | Some db \<Rightarrow>
          (case stored_preference db category key of None \<Rightarrow> None | Some p \<Rightarrow> dget p f))"

definition in_unit :: "val option \<Rightarrow> bool" where
  "in_unit vo =
     (case vo of
        None \<Rightarrow> False
      | Some v \<Rightarrow> (case v of R r \<Rightarrow> 0 \<le> r \<and> r \<le> 1 | I n \<Rightarrow> 0 \<le> n \<and> n \<le> 1 | _ \<Rightarrow> False))"

subsection \<open>Learning preferences from behaviour\<close>

text \<open>
  A \<^verbatim>\<open>collections.Counter\<close> keeps its keys in the order of their first count;
  \<^verbatim>\<open>most_common(n)\<close> is the first \<open>n\<close> of the stable sort by falling count. Counting
  a key that cannot be hashed raises \<^verbatim>\<open>TypeError\<close>.
\<close>

fun counter_add :: "'k \<Rightarrow> ('k \<times> nat) list \<Rightarrow> ('k \<times> nat) list" where
  "counter_add k [] = [(k, 1)]"
| "counter_add k ((k', n) # c) = (if k' = k then (k, n + 1) # c else (k', n) # counter_add k c)"

definition counter :: "'k list \<Rightarrow> ('k \<times> nat) list" where
  "counter ks = foldl (\<lambda>c k. counter_add k c) [] ks"

definition most_common :: "nat \<Rightarrow> ('k \<times> nat) list \<Rightarrow> ('k \<times> nat) list" where
  "most_common n c = take n (sort_desc (\<lambda>a b. a < b) snd c)"

definition counter_total :: "('k \<times> nat) list \<Rightarrow> nat" where
  "counter_total c = sum_list (map snd c)"

text \<open>
  The dict of an inferred preference always has the same six keys; it is a record whose
  fields are the keys with \<open>p_\<close> before them.
\<close>

record inferred =
  p_category :: string
  p_key :: string
  p_value :: val
  p_confidence :: real
  p_evidence :: string
  p_source :: string

text \<open>\<^verbatim>\<open>event.get("event_data", {}).get(name)\<close>: only a dict has \<^verbatim>\<open>get\<close>.\<close>

definition event_data_get :: "doc \<Rightarrow> string \<Rightarrow> py_error + val option" where
  "event_data_get event name =
     (case dget_or event ''event_data'' (D []) of
        D kvs \<Rightarrow> Inr (map_of kvs name)
      | _ \<Rightarrow> Inl AttributeError)"

text \<open>
  The truthy values a loop of an analyser counts; the loop raises at the first event
  it cannot read or count.
\<close>

fun counted_names :: "string \<Rightarrow> doc list \<Rightarrow> py_error + val list" where
  "counted_names name [] = Inr []"
| "counted_names name (event # es) =
     (case event_data_get event name of
        Inl e \<Rightarrow> Inl e
      | Inr vo \<Rightarrow>
          (case (case vo of None \<Rightarrow> Inr [] | Some v \<Rightarrow>
                   if truthy v then (if unhashable v then Inl TypeError else Inr [v]) else Inr []) of
             Inl e \<Rightarrow> Inl e
           | Inr vs \<Rightarrow>
               (case counted_names name es of Inl e \<Rightarrow> Inl e | Inr ws \<Rightarrow> Inr (vs @ ws))))"

definition event_type_in :: "string list \<Rightarrow> doc \<Rightarrow> bool" where
  "event_type_in tys d = list_ex (\<lambda>ty. mongo_eq (dget d ''event_type'') (S ty)) tys"

definition ratio :: "nat \<Rightarrow> nat \<Rightarrow> real" where
  "ratio n m = real n / real m"

definition analyze_app_preferences :: "env \<Rightarrow> database \<Rightarrow> int \<Rightarrow> inferred list" where
  "analyze_app_preferences ev db cutoff_date =
     (let app_events =
            find (\<lambda>d. ts_gte d cutoff_date \<and> event_type_in [''app_opened'', ''app_launched''] d)
              (events db)
      in if app_events = [] then []
         else
           (case counted_names ''app_name'' app_events of
              Inl e \<Rightarrow> []
            | Inr names \<Rightarrow>
                let app_counter = counter names;
                    n_total = counter_total app_counter
                in map (\<lambda>(app_name, n).
                          \<lparr>p_category = ''behavior'', p_key = ''preferred_app'', p_value = app_name,
                           p_confidence = min (95 / 100) (5 / 10 + ratio n n_total),
                           p_evidence = format ev ''Used {count} times ({usage_ratio:.1%} of sessions)''
                                        [I (int n), R (ratio n n_total)],
                           p_source = ''app_usage_analysis''\<rparr>)
                     (filter (\<lambda>(app_name, n). 3 / 10 < ratio n n_total) (most_common 3 app_counter))))"

definition analyze_time_preferences :: "env \<Rightarrow> database \<Rightarrow> int \<Rightarrow> inferred list" where
  "analyze_time_preferences ev db cutoff_date =
     (let evs = find (\<lambda>d. ts_gte d cutoff_date \<and> dget d ''time_of_day'' \<noteq> None) (events db)
      in if evs = [] then []
         else if list_ex (\<lambda>e. unhashable (dget_or e ''time_of_day'' Null)) evs then []
         else
           let time_counter = counter (map (\<lambda>e. dget_or e ''time_of_day'' Null) evs);
               n_total = counter_total time_counter
           in (case most_common 1 time_counter of
                 [] \<Rightarrow> []
               | (most_active_time, n) # rest \<Rightarrow>
                   if 35 / 100 < ratio n n_total
                   then [\<lparr>p_category = ''behavior'', p_key = ''peak_activity_time'',
                          p_value = most_active_time,
                          p_confidence = min (9 / 10) (4 / 10 + ratio n n_total),
                          p_evidence = format ev ''{count} events ({activity_ratio:.1%} of activity)''
                                       [I (int n), R (ratio n n_total)],
                          p_source = ''time_analysis''\<rparr>]
                   else []))"

text \<open>\<^verbatim>\<open>len(content)\<close> of a truthy content.\<close>

definition py_len :: "val \<Rightarrow> py_error + nat" where
  "py_len v =
     (case v of
        S s \<Rightarrow> Inr (length s)
      | L xs \<Rightarrow> Inr (length xs)
      | D kvs \<Rightarrow> Inr (length kvs)
      | _ \<Rightarrow> Inl TypeError)"

fun response_lengths :: "doc list \<Rightarrow> py_error + nat list" where
  "response_lengths [] = Inr []"
| "response_lengths (conv # cs) =
     (let content = dget_or conv ''content'' (S [])
      in if truthy content
         then (case py_len content of
                 Inl e \<Rightarrow> Inl e
               | Inr n \<Rightarrow> (case response_lengths cs of Inl e \<Rightarrow> Inl e | Inr ns \<Rightarrow> Inr (n # ns)))
         else response_lengths cs)"

definition analyze_interaction_preferences :: "env \<Rightarrow> database \<Rightarrow> int \<Rightarrow> inferred list" where
  "analyze_interaction_preferences ev db cutoff_date =
     (let conversations =
            find (\<lambda>d. ts_gte d cutoff_date \<and> mongo_eq (dget d ''memory_type'') (S ''conversation''))
              (memories db)
      in if length conversations < 5 then []
         else
           (case response_lengths conversations of
              Inl e \<Rightarrow> []
            | Inr lens \<Rightarrow>
                if lens = [] then []
                else
                  let avg_length = real (sum_list lens) / real (length lens)
                  in [\<lparr>p_category = ''interaction'', p_key = ''response_style'',
                       p_value = S (if avg_length < 100 then ''brief''
                                  else if avg_length < 300 then ''moderate'' else ''detailed''),
                       p_confidence = (if avg_length < 100 then 75 / 100
                                     else if avg_length < 300 then 70 / 100 else 75 / 100),
                       p_evidence = format ev ''Average response: {avg_length:.0f} characters''
                                    [R avg_length],
                       p_source = ''conversation_analysis''\<rparr>]))"

definition analyze_command_preferences :: "env \<Rightarrow> database \<Rightarrow> int \<Rightarrow> inferred list" where
  "analyze_command_preferences ev db cutoff_date =
     (let command_events =
            find (\<lambda>d. ts_gte d cutoff_date \<and> mongo_eq (dget d ''event_type'') (S ''command_executed''))
              (events db)
      in if command_events = [] then []
         else
           (case counted_names ''command_type'' command_events of
              Inl e \<Rightarrow> []
            | Inr names \<Rightarrow>
                let command_counter = counter names;
                    n_total = counter_total command_counter
                in map (\<lambda>(cmd_type, n).
                          \<lparr>p_category = ''automation'', p_key = ''preferred_command_type'',
                           p_value = cmd_type,
                           p_confidence = min (85 / 100) (5 / 10 + ratio n n_total),
                           p_evidence = format ev ''Used {count} times ({usage_ratio:.1%})''
                                        [I (int n), R (ratio n n_total)],
                           p_source = ''command_usage_analysis''\<rparr>)
                     (filter (\<lambda>(cmd_type, n). 25 / 100 < ratio n n_total)
                        (most_common 2 command_counter))))"

text \<open>The loop that stores the patterns of confidence 0.6 and more.\<close>

fun store_patterns :: "int \<Rightarrow> nat \<Rightarrow> inferred list \<Rightarrow> database option \<Rightarrow> nat \<Rightarrow> nat \<times> database option" where
  "store_patterns now millis [] dbo stored_count = (stored_count, dbo)"
| "store_patterns now millis (p # ps) dbo stored_count =
     (if 6 / 10 \<le> p_confidence p
      then (case learn_preference now millis dbo (p_category p) (p_key p) (p_value p) (p_confidence p) of
              (Inr pid, dbo') \<Rightarrow> store_patterns now millis ps dbo' (stored_count + 1)
            | (Inl f, dbo') \<Rightarrow> store_patterns now millis ps dbo' stored_count)
      else store_patterns now millis ps dbo stored_count)"

record behavior_analysis =
  patterns_detected :: nat
  preferences_learned :: nat
  patterns :: "inferred list"

definition analyze_behavior_for_preferences ::
  "env \<Rightarrow> int \<Rightarrow> nat \<Rightarrow> database option \<Rightarrow> int
     \<Rightarrow> (failure + behavior_analysis) \<times> database option" where
  "analyze_behavior_for_preferences ev now millis dbo days =
     (case dbo of
        None \<Rightarrow> (Inl NotConfigured, None)
      | Some db \<Rightarrow>
          (case days_before now days of
             Inl e \<Rightarrow> (Inl (Raised e), Some db)
           | Inr cutoff_date \<Rightarrow>
               let ps = analyze_app_preferences ev db cutoff_date
                        @ analyze_time_preferences ev db cutoff_date
                        @ analyze_interaction_preferences ev db cutoff_date
                        @ analyze_command_preferences ev db cutoff_date
               in (case store_patterns now millis ps (Some db) 0 of
                     (stored_count, dbo') \<Rightarrow>
                       (Inr \<lparr>patterns_detected = length ps, preferences_learned = stored_count,
                             patterns = ps\<rparr>,
                        dbo'))))"

section \<open>The habit learning engine\<close>

text \<open>\<^verbatim>\<open>HabitLearningEngine\<close> of \<^verbatim>\<open>automation/habit_learning.py\<close>.\<close>

definition get_time_period :: "int \<Rightarrow> string" where
  "get_time_period dt =
     (let hour = (dt div 3600000000) mod 24
      in if 5 \<le> hour \<and> hour < 12 then ''morning''
         else if 12 \<le> hour \<and> hour < 17 then ''afternoon''
         else if 17 \<le> hour \<and> hour < 21 then ''evening''
         else ''night'')"

text \<open>\<^verbatim>\<open>strftime("%A")\<close>: the first day of the calendar is a Monday.\<close>

definition weekday_name :: "int \<Rightarrow> string" where
  "weekday_name dt =
     [''Monday'', ''Tuesday'', ''Wednesday'', ''Thursday'', ''Friday'', ''Saturday'', ''Sunday'']
       ! nat ((dt div day_us) mod 7)"

definition record_event ::
  "int \<Rightarrow> nat \<Rightarrow> database option \<Rightarrow> string \<Rightarrow> doc \<Rightarrow> (failure + string) \<times> database option" where
  "record_event now millis dbo event_type event_data =
     (case dbo of
        None \<Rightarrow> (Inl NotConfigured, None)
      | Some db \<Rightarrow>
          let event =
                [(''event_id'', S (''evt_'' @ str_nat millis)),
                 (''event_type'', S event_type),
                 (''event_data'', D event_data),
                 (''timestamp'', T now),
                 (''time_of_day'', S (get_time_period now)),
                 (''day_of_week'', S (weekday_name now)),
                 (''analyzed'', B False)]
          in (Inr (''evt_'' @ str_nat millis),
              Some (db\<lparr>events := insert_one event (events db)\<rparr>)))"

text \<open>
  A value inside an f-string: a string stands for itself, anything else is rendered by
  Python. The arrow of a sequence is the three bytes of U+2192 between two spaces.
\<close>

definition py_str :: "env \<Rightarrow> val \<Rightarrow> string" where
  "py_str ev v = (case v of S s \<Rightarrow> s | _ \<Rightarrow> format ev ''{}'' [v])"

definition arrow :: string where
  "arrow = [CHR '' '', CHR 0xE2, CHR 0x86, CHR 0x92, CHR '' '']"

text \<open>
  \<^verbatim>\<open>_time_diff_minutes(time1, time2) <= 5\<close>: two timestamps that parse lie at most
  five minutes apart; when one does not parse the difference counts as infinite.
\<close>

definition within_five_minutes :: "val option \<Rightarrow> val option \<Rightarrow> bool" where
  "within_five_minutes time1 time2 =
     (case time1 of
        Some (T a) \<Rightarrow> (case time2 of Some (T b) \<Rightarrow> \<bar>b - a\<bar> \<le> 300000000 | _ \<Rightarrow> False)
      | _ \<Rightarrow> False)"

definition app_name_of :: "doc \<Rightarrow> py_error + val" where
  "app_name_of event =
     (case event_data_get event ''app_name'' of
        Inl e \<Rightarrow> Inl e
      | Inr None \<Rightarrow> Inr (S [])
      | Inr (Some v) \<Rightarrow> Inr v)"

text \<open>The keys the loop over consecutive app events counts, in the order it counts them.\<close>

fun sequence_keys :: "env \<Rightarrow> doc list \<Rightarrow> py_error + string list" where
  "sequence_keys ev (e1 # e2 # es) =
     (case app_name_of e1 of
        Inl x \<Rightarrow> Inl x
      | Inr app1 \<Rightarrow>
          (case app_name_of e2 of
             Inl x \<Rightarrow> Inl x
           | Inr app2 \<Rightarrow>
               (case sequence_keys ev (e2 # es) of
                  Inl x \<Rightarrow> Inl x
                | Inr ks \<Rightarrow>
                    Inr ((if truthy app1 \<and> truthy app2
                             \<and> within_five_minutes (dget e1 ''timestamp'') (dget e2 ''timestamp'')
                          then [py_str ev app1 @ arrow @ py_str ev app2] else []) @ ks))))"
| "sequence_keys ev es = Inr []"

definition sequential_pattern :: "string \<times> nat \<Rightarrow> doc" where
  "sequential_pattern sc =
     (case sc of (sequence, n) \<Rightarrow>
        [(''pattern_type'', S ''sequential''),
         (''description'', S sequence),
         (''occurrences'', I (int n)),
         (''confidence_score'', R (min (95 / 100) (7 / 10 + real n * (5 / 100))))])"

definition detect_sequential_patterns :: "env \<Rightarrow> doc list \<Rightarrow> py_error + doc list" where
  "detect_sequential_patterns ev evs =
     (let app_events = filter (\<lambda>e. dget e ''event_type'' = Some (S ''app_opened'')) evs
      in if length app_events < 2 then Inr []
         else
           (case sequence_keys ev app_events of
              Inl x \<Rightarrow> Inl x
            | Inr ks \<Rightarrow>
                Inr (map sequential_pattern (filter (\<lambda>(sequence, n). 2 \<le> n) (counter ks)))))"

text \<open>\<^verbatim>\<open>time_events[time_period].append(event_type)\<close> on a \<^verbatim>\<open>defaultdict(list)\<close>.\<close>

fun group_add :: "'k \<Rightarrow> 'v \<Rightarrow> ('k \<times> 'v list) list \<Rightarrow> ('k \<times> 'v list) list" where
  "group_add k v [] = [(k, [v])]"
| "group_add k v ((k', vs) # g) =
     (if k' = k then (k, vs @ [v]) # g else (k', vs) # group_add k v g)"

definition time_pattern :: "env \<Rightarrow> val \<Rightarrow> nat \<Rightarrow> val \<times> nat \<Rightarrow> doc" where
  "time_pattern ev time_period n_total ec =
     (case ec of (event_type, n) \<Rightarrow>
        [(''pattern_type'', S ''time_based''),
         (''description'', S (''At '' @ py_str ev time_period @ '': '' @ py_str ev event_type)),
         (''time_period'', time_period),
         (''occurrences'', I (int n)),
         (''confidence_score'', R (ratio n n_total))])"

fun time_patterns_of :: "env \<Rightarrow> (val \<times> val list) list \<Rightarrow> py_error + doc list" where
  "time_patterns_of ev [] = Inr []"
| "time_patterns_of ev ((time_period, event_types) # g) =
     (if list_ex unhashable event_types then Inl TypeError
      else
        (case time_patterns_of ev g of
           Inl x \<Rightarrow> Inl x
         | Inr ps \<Rightarrow>
             Inr (map (time_pattern ev time_period (length event_types))
                    (filter (\<lambda>(event_type, n). 4 / 10 < ratio n (length event_types))
                       (most_common 3 (counter event_types)))
                  @ ps)))"

definition detect_time_patterns :: "env \<Rightarrow> doc list \<Rightarrow> py_error + doc list" where
  "detect_time_patterns ev evs =
     (let entries =
            filter (\<lambda>(time_period, event_type). truthy time_period \<and> truthy event_type)
              (map (\<lambda>e. (dget_or e ''time_of_day'' (S []), dget_or e ''event_type'' (S []))) evs)
      in if list_ex (\<lambda>(time_period, event_type). unhashable time_period) entries
         then Inl TypeError
         else time_patterns_of ev
                (foldl (\<lambda>g (time_period, event_type). group_add time_period event_type g) [] entries))"

definition frequency_pattern :: "env \<Rightarrow> nat \<Rightarrow> val \<times> nat \<Rightarrow> doc" where
  "frequency_pattern ev total_events ec =
     (case ec of (event_type, n) \<Rightarrow>
        [(''pattern_type'', S ''frequency''),
         (''description'', S (''Frequently: '' @ py_str ev event_type)),
         (''occurrences'', I (int n)),
         (''confidence_score'', R (min (95 / 100) (ratio n total_events)))])"

definition detect_frequency_patterns :: "env \<Rightarrow> doc list \<Rightarrow> py_error + doc list" where
  "detect_frequency_patterns ev evs =
     (let event_types = map (\<lambda>e. dget_or e ''event_type'' (S [])) evs
      in if list_ex unhashable event_types then Inl TypeError
         else Inr (map (frequency_pattern ev (length evs))
                     (filter (\<lambda>(event_type, n). truthy event_type \<and> 3 \<le> n) (counter event_types))))"

text \<open>A number read from a dict, for a comparison with a float.\<close>

definition py_number :: "val \<Rightarrow> py_error + real" where
  "py_number v =
     (case v of
        R r \<Rightarrow> Inr r
      | I n \<Rightarrow> Inr (real_of_int n)
      | B b \<Rightarrow> Inr (if b then 1 else 0)
      | _ \<Rightarrow> Inl TypeError)"

text \<open>
  The loops of \<^verbatim>\<open>_detect_patterns\<close>: a pattern is kept when
  \<^verbatim>\<open>pattern["confidence"]\<close> exceeds the threshold.
\<close>

fun surfaced :: "real \<Rightarrow> doc list \<Rightarrow> py_error + doc list" where
  "surfaced threshold [] = Inr []"
| "surfaced threshold (p # ps) =
     (case dsub p ''confidence'' of
        Inl x \<Rightarrow> Inl x
      | Inr v \<Rightarrow>
          (case py_number v of
             Inl x \<Rightarrow> Inl x
           | Inr c \<Rightarrow>
               (case surfaced threshold ps of
                  Inl x \<Rightarrow> Inl x
                | Inr qs \<Rightarrow> Inr (if threshold < c then p # qs else qs))))"

definition detect_patterns :: "env \<Rightarrow> doc list \<Rightarrow> py_error + doc list" where
  "detect_patterns ev evs =
     (case detect_sequential_patterns ev evs of
        Inl x \<Rightarrow> Inl x
      | Inr app_sequences \<Rightarrow>
          (case surfaced (7 / 10) app_sequences of
             Inl x \<Rightarrow> Inl x
           | Inr p1 \<Rightarrow>
               (case detect_time_patterns ev evs of
                  Inl x \<Rightarrow> Inl x
                | Inr time_patterns \<Rightarrow>
                    (case surfaced (6 / 10) time_patterns of
                       Inl x \<Rightarrow> Inl x
                     | Inr p2 \<Rightarrow>
                         (case detect_frequency_patterns ev evs of
                            Inl x \<Rightarrow> Inl x
                          | Inr frequency_patterns \<Rightarrow>
                              (case surfaced (6 / 10) frequency_patterns of
                                 Inl x \<Rightarrow> Inl x
                               | Inr p3 \<Rightarrow> Inr (p1 @ p2 @ p3)))))))"

text \<open>\<^verbatim>\<open>s.split(sep)\<close> for a separator that is not empty.\<close>

fun split_from :: "string \<Rightarrow> nat \<Rightarrow> string \<Rightarrow> string \<Rightarrow> string list" where
  "split_from sep skip acc [] = [rev acc]"
| "split_from sep skip acc (c # cs) =
     (if 0 < skip then split_from sep (skip - 1) acc cs
      else if take (length sep) (c # cs) = sep
           then rev acc # split_from sep (length sep - 1) [] cs
           else split_from sep 0 (c # acc) cs)"

definition split :: "string \<Rightarrow> string \<Rightarrow> string list" where
  "split sep s = split_from sep 0 [] s"

definition habit_suggestion :: "env \<Rightarrow> nat \<Rightarrow> doc \<Rightarrow> py_error + doc list" where
  "habit_suggestion ev millis pattern =
     (case dsub pattern ''confidence_score'' of
        Inl x \<Rightarrow> Inl x
      | Inr cs \<Rightarrow>
          (case py_number cs of
             Inl x \<Rightarrow> Inl x
           | Inr c \<Rightarrow>
               if c < 6 / 10 then Inr []
               else if dget pattern ''pattern_type'' = Some (S ''sequential'') then
                 (case dsub pattern ''description'' of
                    Inl x \<Rightarrow> Inl x
                  | Inr (S description) \<Rightarrow>
                      (case split arrow description of
                         a # b # rest \<Rightarrow>
                           (case dsub pattern ''occurrences'' of
                              Inl x \<Rightarrow> Inl x
                            | Inr occurrences \<Rightarrow>
                                Inr [[(''habit_id'', S (''hab_'' @ str_nat millis)),
                                      (''type'', S ''automation''),
                                      (''title'', S (''Automate: '' @ description)),
                                      (''description'',
                                         S (''I noticed you open '' @ a @ '' followed by '' @ b
                                            @ '' '' @ py_str ev occurrences @ '' times.'')),
                                      (''confidence_score'', cs),
                                      (''pattern'', D pattern),
                                      (''suggested_action'', S ''create_workflow''),
                                      (''status'', S ''pending'')]])
                       | _ \<Rightarrow> Inl IndexError)
                  | Inr v \<Rightarrow> Inl AttributeError)
               else if dget pattern ''pattern_type'' = Some (S ''time_based'') then
                 (case dsub pattern ''description'' of
                    Inl x \<Rightarrow> Inl x
                  | Inr (S description) \<Rightarrow>
                      Inr [[(''habit_id'', S (''hab_'' @ str_nat millis)),
                            (''type'', S ''scheduling''),
                            (''title'',
                               S (''Schedule routine for ''
                                  @ py_str ev (dget_or pattern ''time_period'' Null) @ ''?'')),
                            (''description'', S (''You frequently '' @ lower description)),
                            (''confidence_score'', cs),
                            (''pattern'', D pattern),
                            (''suggested_action'', S ''create_schedule''),
                            (''status'', S ''pending'')]]
                  | Inr v \<Rightarrow> Inl AttributeError)
               else Inr []))"

fun generate_habit_suggestions :: "env \<Rightarrow> nat \<Rightarrow> doc list \<Rightarrow> py_error + doc list" where
  "generate_habit_suggestions ev millis [] = Inr []"
| "generate_habit_suggestions ev millis (pattern # ps) =
     (case habit_suggestion ev millis pattern of
        Inl x \<Rightarrow> Inl x
      | Inr s \<Rightarrow>
          (case generate_habit_suggestions ev millis ps of
             Inl x \<Rightarrow> Inl x
           | Inr ss \<Rightarrow> Inr (s @ ss)))"

text \<open>
  \<^verbatim>\<open>_store_patterns\<close> stamps each pattern and inserts it. The dicts it stamps are the
  ones the result and the habits hold, so they show the stamp too; the habits read no
  field the stamp touches.
\<close>

definition stamp :: "int \<Rightarrow> doc list \<Rightarrow> doc list" where
  "stamp now ps = map (dset ''detected_at'' (T now)) ps"

record habit_analysis =
  found_patterns :: "doc list"
  habits :: "doc list"

definition analyze_recent_events ::
  "env \<Rightarrow> int \<Rightarrow> nat \<Rightarrow> database option \<Rightarrow> int
     \<Rightarrow> (failure + habit_analysis) \<times> database option" where
  "analyze_recent_events ev now millis dbo days =
     (case dbo of
        None \<Rightarrow> (Inl NotConfigured, None)
      | Some db \<Rightarrow>
          (case days_before now days of
             Inl x \<Rightarrow> (Inl (Raised x), Some db)
           | Inr cutoff_date \<Rightarrow>
               let evs = sort_asc (\<lambda>a b. opt_lt a b) ts_key
                           (find (\<lambda>d. ts_gte d cutoff_date) (events db))
               in if evs = [] then (Inr \<lparr>found_patterns = [], habits = []\<rparr>, Some db)
                  else
                    (case detect_patterns ev evs of
                       Inl x \<Rightarrow> (Inl (Raised x), Some db)
                     | Inr ps \<Rightarrow>
                         (case generate_habit_suggestions ev millis (stamp now ps) of
                            Inl x \<Rightarrow> (Inl (Raised x), Some db)
                          | Inr hs \<Rightarrow>
                              (Inr \<lparr>found_patterns = stamp now ps, habits = hs\<rparr>,
                               Some (db\<lparr>user_patterns := user_patterns db @ stamp now ps\<rparr>))))))"

section \<open>Sample data\<close>

text \<open>A clock reading in the year 2027 and memories of a given age in days.\<close>

definition ex_now :: int where
  "ex_now = 740000 * day_us"

definition ex_memory :: "string \<Rightarrow> string \<Rightarrow> int \<Rightarrow> doc" where
  "ex_memory ty imp age_days =
     [(''memory_id'', S ''mem_1''), (''type'', S ty), (''content'', S ''note''),
      (''timestamp'', T (ex_now - age_days * day_us)), (''importance'', S imp),
      (''archived'', B False), (''access_count'', I 0)]"

definition ex_empty :: database where
  "ex_empty = \<lparr>memories = [], events = [], user_preferences = [], preference_history = [],
               user_patterns = [], suggestions = []\<rparr>"

definition ex_db :: database where
  "ex_db = \<lparr>memories = [ex_memory ''fact'' ''low'' 700, ex_memory ''fact'' ''low'' 901,
                         ex_memory ''conversation'' ''high'' 5000,
                         ex_memory ''conversation'' ''medium'' 5000],
            events = [], user_preferences = [], preference_history = [],
            user_patterns = [], suggestions = []\<rparr>"

text \<open>A suggestion as created, and the same after the user accepted it.\<close>

definition ex_pending :: "database option" where
  "ex_pending =
     snd (create_suggestion ex_now 1 (Some ex_empty) ''automation'' ''Automate: Chrome''
            ''Open Chrome each morning'' (8 / 10) None)"

definition ex_responded :: "database option" where
  "ex_responded = snd (respond_to_suggestion ex_now ex_pending ''sugg_1'' ''accepted'' (Some True))"

definition responses :: "database option \<Rightarrow> (val option \<times> val option \<times> val option) list" where
  "responses dbo =
     (case dbo of
        None \<Rightarrow> []
      | Some db \<Rightarrow>
          map (\<lambda>d. (dget d ''status'', dget d ''user_response'', dget d ''helpful''))
            (suggestions db))"

text \<open>A store holding one preference learned with a confidence given as 2.5.\<close>

definition ex_inferred :: "database option" where
  "ex_inferred =
     snd (learn_preference ex_now 2 (Some ex_empty) ''behavior'' ''preferred_app'' (S ''Chrome'') (5 / 2))"


text \<open>
  Surroundings for the samples. Format strings are rendered as their template, and a
  regular expression without special characters is searched as a literal, without
  regard to case. The vectoriser is given by the rows scikit-learn computes on the
  sample inputs: a content equal to the query has similarity 1, a content sharing no
  word with the query has similarity 0, and fitting fails when the query and every
  content consist of English stop words. For the query \<^verbatim>\<open>rain tomorrow forecast\<close>
  over the contents \<^verbatim>\<open>rain tomorrow forecast\<close>, \<^verbatim>\<open>rain tomorrow\<close> and \<^verbatim>\<open>rain\<close>
  the inverse document frequencies are \<open>1\<close>, \<open>ln (5 / 4) + 1\<close> and
  \<open>ln (5 / 3) + 1\<close>, and the cosines are 1, 0.723 and 0.457 to three places.
\<close>

definition ex_tfidf :: "string \<Rightarrow> val list \<Rightarrow> real list option" where
  "ex_tfidf query contents =
     (if query = ''rain tomorrow forecast''
         \<and> contents = [S ''rain tomorrow forecast'', S ''rain tomorrow'', S ''rain'']
      then Some [1, 723 / 1000, 457 / 1000]
      else if query = ''it is'' \<and> contents = [S ''the and of'']
      then None
      else Some (map (\<lambda>c. if c = S query then 1 else 0) contents))"

definition ex_env :: env where
  "ex_env =
     \<lparr>format = (\<lambda>template args. template),
      regex_i = (\<lambda>pattern. Some (\<lambda>s. is_substr (lower pattern) (lower s))),
      tfidf_cosine = ex_tfidf\<rparr>"

text \<open>
  Two memories saved through \<^verbatim>\<open>save_memory\<close>, the first a hundred days before the
  second, and the store after a sweep with a base window of 90 days.
\<close>

definition ex_saved :: "database option" where
  "ex_saved =
     snd (save_memory ex_now 2
            (snd (save_memory (ex_now - 100 * day_us) 1 (Some ex_empty)
                    ''conversation'' ''rain tomorrow'' None None ''low''))
            ''conversation'' ''morning workout'' None (Some [''health'']) ''medium'')"

definition ex_swept :: "database option" where
  "ex_swept = snd (cleanup_old_memories ex_now ex_saved 90)"

text \<open>The content and similarity of the memories a search returns.\<close>

definition hits :: "failure + doc list \<Rightarrow> (val option \<times> val option) list" where
  "hits res =
     (case res of
        Inl f \<Rightarrow> []
      | Inr ms \<Rightarrow> map (\<lambda>m. (dget m ''content'', dget m ''similarity_score'')) ms)"

text \<open>
  A memory saved with an empty content, a memory made of stop words only, and a store
  whose only event lies thirty days back.
\<close>

definition ex_blank :: "database option" where
  "ex_blank = snd (save_memory ex_now 3 (Some ex_empty) ''conversation'' [] None None ''medium'')"

definition ex_stop_words :: "database option" where
  "ex_stop_words =
     snd (save_memory ex_now 4 (Some ex_empty) ''conversation'' ''the and of'' None None ''medium'')"

definition ex_old_event :: "database option" where
  "ex_old_event =
     snd (record_event (ex_now - 30 * day_us) 5 (Some ex_empty) ''app_opened''
            [(''app_name'', S ''Chrome'')])"

text \<open>Chrome opened three times, a minute apart, within the last three minutes.\<close>

definition ex_chrome :: "database option" where
  "ex_chrome =
     snd (record_event (ex_now - 60000000) 13
       (snd (record_event (ex_now - 120000000) 12
         (snd (record_event (ex_now - 180000000) 11 (Some ex_empty)
                 ''app_opened'' [(''app_name'', S ''Chrome'')]))
         ''app_opened'' [(''app_name'', S ''Chrome'')]))
       ''app_opened'' [(''app_name'', S ''Chrome'')])"

definition ex_chrome_event :: "string \<Rightarrow> int \<Rightarrow> doc" where
  "ex_chrome_event event_id seconds_ago =
     [(''event_id'', S event_id), (''event_type'', S ''app_opened''),
      (''event_data'', D [(''app_name'', S ''Chrome'')]),
      (''timestamp'', T (ex_now - seconds_ago * 1000000)),
      (''time_of_day'', S ''night''),
      (''day_of_week'', S ''Tuesday''),
      (''analyzed'', B False)]"

text \<open>Five short conversation turns saved through \<^verbatim>\<open>save_memory\<close> at the clock's reading.\<close>

definition ex_five :: "database option" where
  "ex_five =
     snd (save_memory ex_now 25
       (snd (save_memory ex_now 24
         (snd (save_memory ex_now 23
           (snd (save_memory ex_now 22
             (snd (save_memory ex_now 21 (Some ex_empty)
                     ''conversation'' ''hello there'' None None ''medium''))
             ''conversation'' ''what is the weather'' None None ''medium''))
           ''conversation'' ''open chrome'' None None ''medium''))
         ''conversation'' ''thanks'' None None ''medium''))
       ''conversation'' ''good night'' None None ''medium'')"

definition ex_conversation :: "string \<Rightarrow> string \<Rightarrow> doc" where
  "ex_conversation memory_id content =
     [(''memory_id'', S memory_id), (''type'', S ''conversation''), (''content'', S content),
      (''timestamp'', T ex_now), (''context'', D []), (''tags'', L []),
      (''importance'', S ''medium''), (''relevance_score'', R 1), (''expiry_date'', Null),
      (''archived'', B False), (''access_count'', I 0), (''last_accessed'', Null)]"

definition conversations_in_window :: "database option \<Rightarrow> int \<Rightarrow> nat" where
  "conversations_in_window dbo cutoff =
     (case dbo of
        None \<Rightarrow> 0
      | Some db \<Rightarrow>
          length (find (\<lambda>d. ts_gte d cutoff \<and> dget d ''type'' = Some (S ''conversation''))
                    (memories db)))"

text \<open>
  Three memories of the same content: one of low importance, then two of high
  importance, the last saved a day after the others.
\<close>

definition ex_ties :: "database option" where
  "ex_ties =
     snd (save_memory ex_now 33
       (snd (save_memory (ex_now - day_us) 32
         (snd (save_memory (ex_now - day_us) 31 (Some ex_empty)
                 ''fact'' ''green tea'' None None ''low''))
         ''fact'' ''green tea'' None None ''high''))
       ''fact'' ''green tea'' None None ''high'')"

definition hit_ids :: "failure + doc list \<Rightarrow> (val option \<times> val option) list" where
  "hit_ids res =
     (case res of
        Inl f \<Rightarrow> []
      | Inr ms \<Rightarrow> map (\<lambda>m. (dget m ''memory_id'', dget m ''similarity_score'')) ms)"

text \<open>Three memories that share one, two and three words with a query.\<close>

definition ex_rain :: "database option" where
  "ex_rain =
     snd (save_memory ex_now 43
       (snd (save_memory ex_now 42
         (snd (save_memory ex_now 41 (Some ex_empty)
                 ''fact'' ''rain tomorrow forecast'' None None ''medium''))
         ''fact'' ''rain tomorrow'' None None ''medium''))
       ''fact'' ''rain'' None None ''medium'')"

text \<open>The similarities of a result list rise from its head to its end.\<close>

definition rising :: "doc list \<Rightarrow> bool" where
  "rising rs = sorted_wrt (\<lambda>a b. similarity_of a \<le> similarity_of b) rs"

text \<open>A fact as \<^verbatim>\<open>save_memory\<close> writes it at the clock's reading.\<close>

definition ex_fact :: "string \<Rightarrow> string \<Rightarrow> doc" where
  "ex_fact memory_id content =
     [(''memory_id'', S memory_id), (''type'', S ''fact''), (''content'', S content),
      (''timestamp'', T ex_now), (''context'', D []), (''tags'', L []),
      (''importance'', S ''medium''), (''relevance_score'', R 1), (''expiry_date'', Null),
      (''archived'', B False), (''access_count'', I 0), (''last_accessed'', Null)]"


section \<open>Properties of documents and collections\<close>




lemma dget_dset: "dget (dset k v d) k' = (if k' = k then Some v else dget d k')"
  by (induction d) (auto simp: dget_def)

lemma update_one_no_match: "\<not> list_ex q c \<Longrightarrow> update_one q u c = c"
  by (induction c) auto

lemma update_one_first:
  "i < length c \<Longrightarrow> q (c ! i) \<Longrightarrow> \<forall>j<i. \<not> q (c ! j) \<Longrightarrow> update_one q u c = c[i := u (c ! i)]"
proof (induction c arbitrary: i)
  case Nil
  then show ?case by simp
next
  case (Cons d ds)
  show ?case
  proof (cases i)
    case 0
    with Cons.prems show ?thesis by simp
  next
    case (Suc k)
    with Cons.prems have nq: "\<not> q d" by auto
    from Suc Cons.prems have "k < length ds" "q (ds ! k)" "\<forall>j<k. \<not> q (ds ! j)" by auto
    from Cons.IH[OF this] nq Suc show ?thesis by simp
  qed
qed

lemma find_update_one:
  "(\<And>d. q d \<Longrightarrow> q (u d)) \<Longrightarrow> List.find q (update_one q u c) = map_option u (List.find q c)"
  by (induction c) auto

lemma find_append_new: "\<not> list_ex q c \<Longrightarrow> q d \<Longrightarrow> List.find q (c @ [d]) = Some d"
  by (induction c) auto

lemma list_ex_find: "list_ex q c \<Longrightarrow> \<exists>d. List.find q c = Some d"
  by (induction c) auto

lemma set_insert_desc: "set (insert_desc lt key x ys) = insert x (set ys)"
  by (induction ys) auto

lemma set_sort_desc: "set (sort_desc lt key xs) = set xs"
  by (induction xs) (simp_all add: sort_desc_def set_insert_desc)

lemma set_mongo_limit: "set (mongo_limit n xs) \<subseteq> set xs"
  by (simp add: mongo_limit_def set_take_subset)

lemma set_py_take: "set (py_take n xs) \<subseteq> set xs"
  by (simp add: py_take_def set_take_subset)

lemma sort_desc_Nil_iff: "sort_desc lt key xs = [] \<longleftrightarrow> xs = []"
  using set_sort_desc[of lt key xs] by (metis set_empty)

lemma find_first:
  "i < length c \<Longrightarrow> q (c ! i) \<Longrightarrow> \<forall>j<i. \<not> q (c ! j) \<Longrightarrow> List.find q c = Some (c ! i)"
proof (induction c arbitrary: i)
  case Nil
  then show ?case by simp
next
  case (Cons d ds)
  show ?case
  proof (cases i)
    case 0
    with Cons.prems show ?thesis by simp
  next
    case (Suc k)
    with Cons.prems have nq: "\<not> q d" by auto
    from Suc Cons.prems have "k < length ds" "q (ds ! k)" "\<forall>j<k. \<not> q (ds ! j)" by auto
    from Cons.IH[OF this] nq Suc show ?thesis by simp
  qed
qed

lemma filter_none: "list_all (\<lambda>d. \<not> q d) c \<Longrightarrow> filter q c = []"
  by (induction c) auto

section \<open>The retention sweep archives low-importance memories past their window\<close>

lemma dget_archive_archived: "dget (archive now d) ''archived'' = Some (B True)"
  by (simp add: archive_def dget_dset)

lemma not_sweep_query_archive: "\<not> sweep_query ty cutoff (archive now d)"
  by (simp add: sweep_query_def dget_archive_archived mongo_eq_def)

lemma not_swept_archive: "\<not> swept now ps (archive now d)"
  by (induction ps) (auto simp: not_sweep_query_archive split: sum.splits)

lemma sweep_result:
  "sweep now ps c n = (Inr n', c') \<Longrightarrow>
     c' = map (\<lambda>d. if swept now ps d then archive now d else d) c"
proof (induction ps arbitrary: c n)
  case Nil
  then show ?case by simp
next
  case (Cons p ps)
  obtain ty days where p: "p = (ty, days)" by (cases p)
  from Cons.prems p obtain cutoff where cutoff: "days_before now days = Inr cutoff"
    by (auto split: sum.splits)
  let ?c1 = "update_many (sweep_query ty cutoff) (archive now) c"
  from Cons.prems p cutoff
  have "sweep now ps ?c1 (n + modified_count (sweep_query ty cutoff) (archive now) c) = (Inr n', c')"
    by simp
  from Cons.IH[OF this] have c': "c' = map (\<lambda>d. if swept now ps d then archive now d else d) ?c1" .
  show ?case
    unfolding c' update_many_def p
    by (simp add: cutoff not_swept_archive)
qed

lemma sweep_ok_days:
  "sweep now ps c n = (Inr n', c') \<Longrightarrow> (ty, days) \<in> set ps \<Longrightarrow> \<exists>cutoff. days_before now days = Inr cutoff"
  by (induction ps arbitrary: c n) (auto split: sum.splits)

lemma days_before_Inr: "days_before now days = Inr cutoff \<Longrightarrow> cutoff = now - days * day_us"
  by (auto simp: days_before_def timedelta_days_def dt_minus_def Let_def split: if_splits)


lemma cleanup_sweep:
  assumes "cleanup_old_memories now (Some db) days_to_keep = (Inr r, dbo')"
  shows "\<exists>n c. sweep now (retention_policies days_to_keep) (memories db) 0 = (Inr n, c)
           \<and> dbo' = Some (db\<lparr>memories := c\<rparr>)"
  using assms
  by (auto simp: cleanup_old_memories_def split: sum.splits prod.splits)

lemma swept_policies:
  assumes sw: "sweep now (retention_policies days_to_keep) c 0 = (Inr n, c')"
    and ty: "dget m ''type'' = Some (S ty)"
    and ts: "dget m ''timestamp'' = Some (T ts)"
    and ar: "dget m ''archived'' = Some (B a)"
    and im: "dget m ''importance'' = Some (S imp)"
  shows "swept now (retention_policies days_to_keep) m
           = (\<not> a \<and> imp = ''low'' \<and> past_retention now days_to_keep ty ts)"
proof -
  have q: "sweep_query ty' cutoff m = (ty = ty' \<and> ts < cutoff \<and> \<not> a \<and> imp = ''low'')" for ty' cutoff
    by (auto simp: sweep_query_def mongo_eq_def ts_lt_def ty ts ar im)
  have d: "days_before now days = Inr (now - days * day_us)"
    if "(ty', days) \<in> set (retention_policies days_to_keep)" for ty' days
    using sweep_ok_days[OF sw that] days_before_Inr by blast
  have d1: "days_before now days_to_keep = Inr (now - days_to_keep * day_us)"
    by (rule d[of "''conversation''"]) (simp add: retention_policies_def)
  have d3: "days_before now (days_to_keep * 3) = Inr (now - days_to_keep * 3 * day_us)"
    by (rule d[of "''preference''"]) (simp add: retention_policies_def)
  have d10: "days_before now (days_to_keep * 10) = Inr (now - days_to_keep * 10 * day_us)"
    by (rule d[of "''fact''"]) (simp add: retention_policies_def)
  have d5: "days_before now (days_to_keep * 5) = Inr (now - days_to_keep * 5 * day_us)"
    by (rule d[of "''learning''"]) (simp add: retention_policies_def)
  have d2: "days_before now (days_to_keep * 2) = Inr (now - days_to_keep * 2 * day_us)"
    by (rule d[of "''event''"]) (simp add: retention_policies_def)
  show ?thesis
    by (auto simp: retention_policies_def past_retention_def q d1 d3 d10 d5 d2)
qed

lemma days_before_ok:
  "0 \<le> n \<Longrightarrow> n * day_us \<le> now \<Longrightarrow> now \<le> dt_max \<Longrightarrow> days_before now n = Inr (now - n * day_us)"
proof -
  assume n: "0 \<le> n" and le: "n * day_us \<le> now" and mx: "now \<le> dt_max"
  have "n * day_us \<le> 3652059 * day_us" using le mx by (simp add: dt_max_def)
  then have "n \<le> 3652059" by (simp add: day_us_def)
  then show ?thesis using n le mx
    by (simp add: days_before_def timedelta_days_def dt_minus_def Let_def day_us_def)
qed

lemma sweep_succeeds:
  "list_all (\<lambda>(ty, days). \<exists>cutoff. days_before now days = Inr cutoff) ps
     \<Longrightarrow> \<exists>n' c'. sweep now ps c n = (Inr n', c')"
  by (induction ps arbitrary: c n) auto

lemma cleanup_succeeds:
  assumes "0 \<le> days_to_keep" and "days_to_keep * 10 * day_us \<le> now" and "now \<le> dt_max"
  shows "\<exists>r db'. cleanup_old_memories now (Some db) days_to_keep = (Inr r, Some db')"
proof -
  have pos: "0 \<le> day_us" by (simp add: day_us_def)
  have le: "days_to_keep * k * day_us \<le> now" if "k \<le> 10" "0 \<le> k" for k
  proof -
    have "days_to_keep * k \<le> days_to_keep * 10" using assms(1) that by (simp add: mult_left_mono)
    then have "days_to_keep * k * day_us \<le> days_to_keep * 10 * day_us"
      using pos by (simp add: mult_right_mono)
    then show ?thesis using assms(2) by simp
  qed
  have d: "days_before now (days_to_keep * k) = Inr (now - days_to_keep * k * day_us)"
    if "k \<le> 10" "0 \<le> k" for k
    using days_before_ok[of "days_to_keep * k" now] le[OF that] assms(1,3) that by simp
  have d1: "days_before now days_to_keep = Inr (now - days_to_keep * day_us)"
    using d[of 1] by simp
  have "list_all (\<lambda>(ty, days). \<exists>cutoff. days_before now days = Inr cutoff) (retention_policies days_to_keep)"
    using d[of 3] d[of 10] d[of 5] d[of 2] d1 by (simp add: retention_policies_def)
  from sweep_succeeds[OF this] obtain n' c'
    where "sweep now (retention_policies days_to_keep) (memories db) 0 = (Inr n', c')" by blast
  then show ?thesis by (simp add: cleanup_old_memories_def d1)
qed

lemma cleanup_result:
  assumes "cleanup_old_memories now (Some db) days_to_keep = (Inr r, dbo')"
  shows "dbo' = Some (db\<lparr>memories :=
            map (\<lambda>d. if swept now (retention_policies days_to_keep) d then archive now d else d)
              (memories db)\<rparr>)"
proof -
  from cleanup_sweep[OF assms] obtain n c
    where sw: "sweep now (retention_policies days_to_keep) (memories db) 0 = (Inr n, c)"
      and dbo': "dbo' = Some (db\<lparr>memories := c\<rparr>)" by blast
  from sweep_result[OF sw] dbo' show ?thesis by simp
qed

lemma ex_cutoff:
  "0 \<le> n \<Longrightarrow> n \<le> 1000 \<Longrightarrow> days_before ex_now n = Inr (ex_now - n * day_us)"
  by (rule days_before_ok) (simp_all add: ex_now_def dt_max_def day_us_def)

text \<open>
  Claim C1. When the sweep \<^verbatim>\<open>cleanup_old_memories(days_to_keep)\<close> succeeds, it
  archives a memory exactly when the memory was not archived, its importance is
  \<^verbatim>\<open>low\<close> and its timestamp lies before the clock minus \<open>days_to_keep\<close> times the
  factor of its type (conversation 1, preference 3, fact 10, learning 5, event 2);
  every other memory is left as it was. So a memory of importance \<^verbatim>\<open>high\<close> or
  \<^verbatim>\<open>medium\<close> is never archived whatever its age, and with 90 days a fact of low
  importance is kept at 700 days and archived at 901 days.
\<close>

theorem cleanup_archives_low_past_retention:
  assumes ok: "cleanup_old_memories now (Some db) days_to_keep = (Inr r, dbo')"
    and i: "i < length (memories db)"
    and ty: "dget (memories db ! i) ''type'' = Some (S ty)"
    and ts: "dget (memories db ! i) ''timestamp'' = Some (T ts)"
    and ar: "dget (memories db ! i) ''archived'' = Some (B a)"
    and im: "dget (memories db ! i) ''importance'' = Some (S imp)"
  shows "\<exists>db'. dbo' = Some db' \<and> length (memories db') = length (memories db)
           \<and> memories db' ! i =
               (if \<not> a \<and> imp = ''low'' \<and> past_retention now days_to_keep ty ts
                then archive now (memories db ! i) else memories db ! i)
           \<and> dget (memories db' ! i) ''archived''
               = Some (B (a \<or> imp = ''low'' \<and> past_retention now days_to_keep ty ts))"
proof -
  from cleanup_sweep[OF ok] obtain n c
    where sw: "sweep now (retention_policies days_to_keep) (memories db) 0 = (Inr n, c)"
      and dbo': "dbo' = Some (db\<lparr>memories := c\<rparr>)" by blast
  have c: "c = map (\<lambda>d. if swept now (retention_policies days_to_keep) d then archive now d else d) (memories db)"
    by (rule sweep_result[OF sw])
  have s: "swept now (retention_policies days_to_keep) (memories db ! i)
             = (\<not> a \<and> imp = ''low'' \<and> past_retention now days_to_keep ty ts)"
    by (rule swept_policies[OF sw ty ts ar im])
  have len: "length c = length (memories db)" by (simp add: c)
  have ci: "c ! i = (if \<not> a \<and> imp = ''low'' \<and> past_retention now days_to_keep ty ts
                     then archive now (memories db ! i) else memories db ! i)"
    using i s by (simp add: c)
  have ar': "dget (c ! i) ''archived'' = Some (B (a \<or> imp = ''low'' \<and> past_retention now days_to_keep ty ts))"
    unfolding ci by (auto simp: dget_archive_archived ar)
  show ?thesis using dbo' len ci ar' by simp
qed

theorem cleanup_archives_low_past_retention_witness:
  "\<exists>r db'. cleanup_old_memories ex_now (Some ex_db) 90 = (Inr r, Some db')
      \<and> map (\<lambda>m. dget m ''archived'') (memories db')
          = [Some (B False), Some (B True), Some (B False), Some (B False)]"
proof -
  have "\<exists>r db'. cleanup_old_memories ex_now (Some ex_db) 90 = (Inr r, Some db')"
    by (rule cleanup_succeeds) (simp_all add: ex_now_def day_us_def dt_max_def)
  then obtain r db' where ok: "cleanup_old_memories ex_now (Some ex_db) 90 = (Inr r, Some db')"
    by blast
  have len: "length (memories ex_db) = 4" by (simp add: ex_db_def)
  have f: "dget (ex_memory ty imp age) ''type'' = Some (S ty)"
          "dget (ex_memory ty imp age) ''timestamp'' = Some (T (ex_now - age * day_us))"
          "dget (ex_memory ty imp age) ''archived'' = Some (B False)"
          "dget (ex_memory ty imp age) ''importance'' = Some (S imp)" for ty imp age
    by (simp_all add: ex_memory_def dget_def)
  have m: "memories ex_db ! 0 = ex_memory ''fact'' ''low'' 700"
          "memories ex_db ! 1 = ex_memory ''fact'' ''low'' 901"
          "memories ex_db ! 2 = ex_memory ''conversation'' ''high'' 5000"
          "memories ex_db ! 3 = ex_memory ''conversation'' ''medium'' 5000"
    by (simp_all add: ex_db_def)
  have a0: "dget (memories db' ! 0) ''archived'' = Some (B False)"
    using cleanup_archives_low_past_retention[OF ok, of 0 "''fact''" "ex_now - 700 * day_us" False "''low''"]
    by (simp add: ex_db_def f past_retention_def day_us_def dget_archive_archived)
  have a1: "dget (memories db' ! 1) ''archived'' = Some (B True)"
    using cleanup_archives_low_past_retention[OF ok, of 1 "''fact''" "ex_now - 901 * day_us" False "''low''"]
    by (simp add: ex_db_def f past_retention_def day_us_def dget_archive_archived)
  have a2: "dget (memories db' ! 2) ''archived'' = Some (B False)"
    using cleanup_archives_low_past_retention[OF ok, of 2 "''conversation''" "ex_now - 5000 * day_us" False "''high''"]
    by (simp add: ex_db_def f)
  have a3: "dget (memories db' ! 3) ''archived'' = Some (B False)"
    using cleanup_archives_low_past_retention[OF ok, of 3 "''conversation''" "ex_now - 5000 * day_us" False "''medium''"]
    by (simp add: ex_db_def f)
  have l': "length (memories db') = 4"
    using cleanup_archives_low_past_retention[OF ok, of 0 "''fact''" "ex_now - 700 * day_us" False "''low''"]
    by (simp add: ex_db_def f)
  have res: "map (\<lambda>m. dget m ''archived'') (memories db') = [Some (B False), Some (B True), Some (B False), Some (B False)]"
    using l' a0 a1 a2 a3 by (auto simp: list_eq_iff_nth_eq nth_Cons' less_Suc_eq numeral_eq_Suc)
  show ?thesis by (rule exI[of _ r], rule exI[of _ db'], rule conjI[OF ok res])
qed
section \<open>Responding to a suggestion\<close>

lemma ex_pending_eq: "ex_pending = Some (ex_empty\<lparr>suggestions := [
                [(''suggestion_id'', S ''sugg_1''),
                 (''type'', S ''automation''),
                 (''title'', S ''Automate: Chrome''),
                 (''description'', S ''Open Chrome each morning''),
                 (''confidence_score'', R (8 / 10)),
                 (''suggested_action'', D []),
                 (''status'', S ''pending''),
                 (''created_date'', T ex_now),
                 (''shown_date'', Null),
                 (''response_date'', Null),
                 (''user_response'', Null),
                 (''helpful'', Null)]]\<rparr>)"
  by (simp add: ex_pending_def create_suggestion_def ex_empty_def insert_one_def clamp01_def str_nat.simps digit_char_def)

lemma dget_update_data:
  "dget (dsets (update_data now response helpful) d) ''status'' = Some (S ''responded'')"
  "dget (dsets (update_data now response helpful) d) ''user_response'' = Some (S response)"
  "dget (dsets (update_data now response helpful) d) ''helpful''
     = (case helpful of None \<Rightarrow> dget d ''helpful'' | Some h \<Rightarrow> Some (B h))"
  by (simp_all add: update_data_def dget_dset split: option.split)

lemma ex_responded_eq: "ex_responded = Some (ex_empty\<lparr>suggestions := [
                [(''suggestion_id'', S ''sugg_1''),
                 (''type'', S ''automation''),
                 (''title'', S ''Automate: Chrome''),
                 (''description'', S ''Open Chrome each morning''),
                 (''confidence_score'', R (8 / 10)),
                 (''suggested_action'', D []),
                 (''status'', S ''responded''),
                 (''created_date'', T ex_now),
                 (''shown_date'', Null),
                 (''response_date'', T ex_now),
                 (''user_response'', S ''accepted''),
                 (''helpful'', B True)]]\<rparr>)"
  by (simp add: ex_responded_def ex_pending_eq respond_to_suggestion_def update_data_def
        mongo_eq_def dget_def)

text \<open>
  Claim C10. For an id that no stored suggestion carries, \<^verbatim>\<open>respond_to_suggestion\<close>
  answers with success, not with a not-found error, and the stored suggestions are as
  before.
\<close>

theorem respond_unknown_id_changes_nothing:
  assumes "\<not> list_ex (\<lambda>d. mongo_eq (dget d ''suggestion_id'') (S suggestion_id)) (suggestions db)"
  shows "respond_to_suggestion now (Some db) suggestion_id response helpful
           = (Inr (''Response recorded: '' @ response), Some db)"
  using assms by (simp add: respond_to_suggestion_def update_one_no_match)

theorem respond_unknown_id_changes_nothing_witness:
  "respond_to_suggestion ex_now ex_pending ''sugg_2'' ''accepted'' None
     = (Inr ''Response recorded: accepted'', ex_pending)"
proof -
  obtain db where db: "ex_pending = Some db" and s: "suggestions db = [
                [(''suggestion_id'', S ''sugg_1''),
                 (''type'', S ''automation''),
                 (''title'', S ''Automate: Chrome''),
                 (''description'', S ''Open Chrome each morning''),
                 (''confidence_score'', R (8 / 10)),
                 (''suggested_action'', D []),
                 (''status'', S ''pending''),
                 (''created_date'', T ex_now),
                 (''shown_date'', Null),
                 (''response_date'', Null),
                 (''user_response'', Null),
                 (''helpful'', Null)]]"
    by (simp add: ex_pending_eq)
  have "\<not> list_ex (\<lambda>d. mongo_eq (dget d ''suggestion_id'') (S ''sugg_2'')) (suggestions db)"
    by (simp add: s dget_def mongo_eq_def)
  from respond_unknown_id_changes_nothing[OF this, of ex_now "''accepted''" None] db
  show ?thesis by simp
qed

text \<open>
  Claim C2, as the code has it. \<^verbatim>\<open>respond_to_suggestion\<close> does not look at the
  status: on the first stored suggestion with the id, pending or not, it sets the
  status to \<^verbatim>\<open>responded\<close> and the response to the one given, replaces
  \<^verbatim>\<open>helpful\<close> only when a value is passed, and leaves the other suggestions alone.
\<close>

theorem respond_overwrites_any_status:
  assumes i: "i < length (suggestions db)"
    and hit: "mongo_eq (dget (suggestions db ! i) ''suggestion_id'') (S suggestion_id)"
    and first: "\<forall>j<i. \<not> mongo_eq (dget (suggestions db ! j) ''suggestion_id'') (S suggestion_id)"
  shows "\<exists>db'. respond_to_suggestion now (Some db) suggestion_id response helpful
                  = (Inr (''Response recorded: '' @ response), Some db')
           \<and> suggestions db'
               = (suggestions db)[i := dsets (update_data now response helpful) (suggestions db ! i)]
           \<and> dget (suggestions db' ! i) ''status'' = Some (S ''responded'')
           \<and> dget (suggestions db' ! i) ''user_response'' = Some (S response)
           \<and> dget (suggestions db' ! i) ''helpful''
               = (case helpful of None \<Rightarrow> dget (suggestions db ! i) ''helpful''
                  | Some h \<Rightarrow> Some (B h))"
proof -
  let ?q = "\<lambda>d. mongo_eq (dget d ''suggestion_id'') (S suggestion_id)"
  let ?u = "dsets (update_data now response helpful)"
  have u: "update_one ?q ?u (suggestions db) = (suggestions db)[i := ?u (suggestions db ! i)]"
    using update_one_first[of i "suggestions db" ?q ?u] i hit first by blast
  show ?thesis
    using i by (simp add: respond_to_suggestion_def u dget_update_data)
qed

theorem respond_overwrites_any_status_witness:
  "responses (snd (respond_to_suggestion ex_now ex_responded ''sugg_1'' ''later'' None))
     = [(Some (S ''responded''), Some (S ''later''), Some (B True))]"
proof -
  obtain db where db: "ex_responded = Some db" and s: "suggestions db = [
                [(''suggestion_id'', S ''sugg_1''),
                 (''type'', S ''automation''),
                 (''title'', S ''Automate: Chrome''),
                 (''description'', S ''Open Chrome each morning''),
                 (''confidence_score'', R (8 / 10)),
                 (''suggested_action'', D []),
                 (''status'', S ''responded''),
                 (''created_date'', T ex_now),
                 (''shown_date'', Null),
                 (''response_date'', T ex_now),
                 (''user_response'', S ''accepted''),
                 (''helpful'', B True)]]"
    by (simp add: ex_responded_eq)
  have i: "0 < length (suggestions db)" by (simp add: s)
  have hit: "mongo_eq (dget (suggestions db ! 0) ''suggestion_id'') (S ''sugg_1'')"
    by (simp add: s dget_def mongo_eq_def)
  have first: "\<forall>j<0. \<not> mongo_eq (dget (suggestions db ! j) ''suggestion_id'') (S ''sugg_1'')"
    by simp
  from respond_overwrites_any_status[OF i hit first, of ex_now "''later''" None]
  obtain db' where r: "respond_to_suggestion ex_now (Some db) ''sugg_1'' ''later'' None
                         = (Inr (''Response recorded: '' @ ''later''), Some db')"
    and l: "suggestions db' = (suggestions db)[0 := dsets (update_data ex_now ''later'' None) (suggestions db ! 0)]"
    and st: "dget (suggestions db' ! 0) ''status'' = Some (S ''responded'')"
    and ur: "dget (suggestions db' ! 0) ''user_response'' = Some (S ''later'')"
    and hp: "dget (suggestions db' ! 0) ''helpful'' = dget (suggestions db ! 0) ''helpful''"
    by auto
  have len: "length (suggestions db') = 1" by (simp add: l s)
  then obtain d where d: "suggestions db' = [d]" by (cases "suggestions db'") auto
  have "dget (suggestions db ! 0) ''helpful'' = Some (B True)" by (simp add: s dget_def)
  with st ur hp d show ?thesis by (simp add: db r responses_def)
qed

text \<open>
  A suggestion already answered with \<^verbatim>\<open>accepted\<close> and answered again: the second
  response and flag replace the first, so responding to a suggestion that is not
  pending is no no-op.
\<close>

theorem respond_twice_counterexample:
  "responses ex_responded = [(Some (S ''responded''), Some (S ''accepted''), Some (B True))]
   \<and> responses (snd (respond_to_suggestion ex_now ex_responded ''sugg_1'' ''rejected'' (Some False)))
       = [(Some (S ''responded''), Some (S ''rejected''), Some (B False))]"
  by (simp add: ex_responded_eq respond_to_suggestion_def update_data_def mongo_eq_def dget_def
        responses_def)

section \<open>Writing preferences\<close>

lemma dget_preference_doc:
  "dget (dsets (preference_doc now millis category key v source x) d) ''category'' = Some (S category)"
  "dget (dsets (preference_doc now millis category key v source x) d) ''key'' = Some (S key)"
  "dget (dsets (preference_doc now millis category key v source x) d) ''value'' = Some v"
  "dget (dsets (preference_doc now millis category key v source x) d) ''confidence'' = Some (clamp01 x)"
  "dget (dsets (preference_doc now millis category key v source x) d) ''version'' = Some (I 1)"
  by (simp_all add: preference_doc_def dget_dset)

lemma upsert_preference:
  "upsert_one [(''category'', S category), (''key'', S key)] fs c
     = (if list_ex (preference_query category key) c
        then update_one (preference_query category key) (dsets fs) c
        else insert_one (dsets fs [(''category'', S category), (''key'', S key)]) c)"
proof -
  have "(\<lambda>d. list_all (\<lambda>(k, v). mongo_eq (dget d k) v) [(''category'', S category), (''key'', S key)])
          = preference_query category key"
    by (rule ext) (simp add: preference_query_def)
  then show ?thesis by (simp add: upsert_one_def)
qed

lemma in_unit_clamp01: "in_unit (Some (clamp01 x))"
  by (simp add: in_unit_def clamp01_def)

lemma stored_field_after_set:
  "stored_field (snd (set_preference now millis (Some db) category key v source x)) category key f
     = dget (dsets (preference_doc now millis category key v source x)
               (case List.find (preference_query category key) (user_preferences db) of
                  None \<Rightarrow> [(''category'', S category), (''key'', S key)]
                | Some d \<Rightarrow> d)) f"
proof -
  let ?q = "preference_query category key"
  let ?u = "dsets (preference_doc now millis category key v source x)"
  have qu: "?q (?u d)" for d
    by (simp add: preference_query_def dget_preference_doc mongo_eq_def)
  show ?thesis
  proof (cases "list_ex ?q (user_preferences db)")
    case True
    then obtain d where d: "List.find ?q (user_preferences db) = Some d"
      using list_ex_find by blast
    have "List.find ?q (update_one ?q ?u (user_preferences db)) = Some (?u d)"
      using find_update_one[of ?q ?u "user_preferences db"] qu d by simp
    with True d show ?thesis
      by (simp add: set_preference_def stored_field_def stored_preference_def find_one_def
            upsert_preference)
  next
    case False
    then have n: "List.find ?q (user_preferences db) = None"
      by (simp add: find_None_iff list_ex_iff)
    have "List.find ?q (user_preferences db @ [?u [(''category'', S category), (''key'', S key)]])
            = Some (?u [(''category'', S category), (''key'', S key)])"
      by (rule find_append_new[OF False qu])
    with False n show ?thesis
      by (simp add: set_preference_def stored_field_def stored_preference_def find_one_def
            upsert_preference insert_one_def)
  qed
qed

lemma set_preference_unit:
  "in_unit (stored_field (snd (set_preference now millis (Some db) category key v source x))
              category key ''confidence'')"
  by (simp add: stored_field_after_set dget_preference_doc in_unit_clamp01)

lemma fst_set_preference:
  "fst (set_preference now millis dbo category key v source x) = Inr pid \<Longrightarrow> \<exists>db. dbo = Some db"
  by (cases dbo) (simp_all add: set_preference_def)

lemma apply_preference_unit:
  assumes "fst (apply_preference now dbo category key) = Inr u"
  shows "in_unit (stored_field (snd (apply_preference now dbo category key)) category key ''confidence'')"
proof -
  let ?q = "preference_query category key"
  let ?u = "dsets [(''source'', S ''manual''), (''modified_date'', T now), (''confidence'', R 1)]"
  from assms obtain db where db: "dbo = Some db"
    by (cases dbo) (simp_all add: apply_preference_def)
  from assms db have m: "list_ex ?q (user_preferences db)"
    by (simp add: apply_preference_def matched_count_def split: if_splits)
  then obtain d where d: "List.find ?q (user_preferences db) = Some d"
    using list_ex_find by blast
  have qu: "?q d \<Longrightarrow> ?q (?u d)" for d
    by (simp add: preference_query_def dget_dset)
  have "List.find ?q (update_one ?q ?u (user_preferences db)) = Some (?u d)"
    using find_update_one[of ?q ?u "user_preferences db"] qu d by simp
  with m db show ?thesis
    by (simp add: apply_preference_def matched_count_def stored_field_def stored_preference_def
          find_one_def dget_dset in_unit_def)
qed

text \<open>
  Claim C6. After a successful \<^verbatim>\<open>set_preference\<close>, whatever confidence the caller
  gave, after a successful \<^verbatim>\<open>learn_preference\<close> and after a successful
  \<^verbatim>\<open>apply_preference\<close>, the confidence stored for the preference written is a number
  between 0 and 1.
\<close>

theorem written_confidence_in_unit:
  "(fst (set_preference now millis dbo category key v source x) = Inr pid
      \<longrightarrow> in_unit (stored_field (snd (set_preference now millis dbo category key v source x))
                     category key ''confidence''))
   \<and> (fst (learn_preference now millis dbo category key v x) = Inr pid
        \<longrightarrow> in_unit (stored_field (snd (learn_preference now millis dbo category key v x))
                       category key ''confidence''))
   \<and> (fst (apply_preference now dbo category key) = Inr u
        \<longrightarrow> in_unit (stored_field (snd (apply_preference now dbo category key))
                       category key ''confidence''))"
proof (intro conjI impI)
  assume "fst (set_preference now millis dbo category key v source x) = Inr pid"
  then obtain db where "dbo = Some db" using fst_set_preference by blast
  then show "in_unit (stored_field (snd (set_preference now millis dbo category key v source x))
                     category key ''confidence'')"
    by (simp add: set_preference_unit)
next
  assume a: "fst (learn_preference now millis dbo category key v x) = Inr pid"
  then have l: "learn_preference now millis dbo category key v x
                  = set_preference now millis dbo category key v ''inferred'' x"
    by (auto simp: learn_preference_def split: if_splits)
  with a obtain db where db: "dbo = Some db" using fst_set_preference by metis
  show "in_unit (stored_field (snd (learn_preference now millis dbo category key v x))
                     category key ''confidence'')"
    using l set_preference_unit[of now millis db category key v "''inferred''" x]
    by (simp add: db)
next
  assume "fst (apply_preference now dbo category key) = Inr u"
  then show "in_unit (stored_field (snd (apply_preference now dbo category key))
                       category key ''confidence'')"
    by (rule apply_preference_unit)
qed

theorem written_confidence_in_unit_witness:
  "stored_field (snd (set_preference ex_now 1 (Some ex_empty) ''voice'' ''speed'' (R (3 / 2)) ''manual'' (- 4)))
       ''voice'' ''speed'' ''confidence'' = Some (I 0)
   \<and> stored_field ex_inferred ''behavior'' ''preferred_app'' ''confidence'' = Some (I 1)
   \<and> in_unit (stored_field (snd (set_preference ex_now 1 (Some ex_empty) ''voice'' ''speed'' (R (3 / 2)) ''manual'' (- 4)))
                ''voice'' ''speed'' ''confidence'')
   \<and> in_unit (stored_field ex_inferred ''behavior'' ''preferred_app'' ''confidence'')
   \<and> in_unit (stored_field (snd (apply_preference ex_now ex_inferred ''behavior'' ''preferred_app''))
                ''behavior'' ''preferred_app'' ''confidence'')"
proof -
  have e: "ex_inferred = Some (ex_empty\<lparr>user_preferences :=
              [[(''category'', S ''behavior''), (''key'', S ''preferred_app''),
                (''preference_id'', S ''pref_2''), (''value'', S ''Chrome''),
                (''set_date'', T ex_now), (''modified_date'', T ex_now),
                (''source'', S ''inferred''), (''confidence'', I 1), (''version'', I 1)]],
             preference_history :=
              [[(''timestamp'', T ex_now), (''category'', S ''behavior''), (''key'', S ''preferred_app''),
                (''value'', S ''Chrome''), (''source'', S ''inferred'')]]\<rparr>)"
    by (simp add: ex_inferred_def learn_preference_def set_preference_def upsert_one_def
          insert_one_def preference_doc_def log_preference_change_def clamp01_def ex_empty_def
          str_nat.simps digit_char_def)
  have h1: "fst (set_preference ex_now 1 (Some ex_empty) ''voice'' ''speed'' (R (3 / 2)) ''manual'' (- 4))
              = Inr ''pref_1''"
    by (simp add: set_preference_def str_nat.simps digit_char_def)
  have h2: "fst (learn_preference ex_now 2 (Some ex_empty) ''behavior'' ''preferred_app'' (S ''Chrome'') (5 / 2))
              = Inr ''pref_2''"
    by (simp add: learn_preference_def set_preference_def str_nat.simps digit_char_def)
  have h3: "fst (apply_preference ex_now ex_inferred ''behavior'' ''preferred_app'') = Inr ()"
    by (simp add: e apply_preference_def matched_count_def preference_query_def dget_def
          mongo_eq_def)
  have v1: "stored_field (snd (set_preference ex_now 1 (Some ex_empty) ''voice'' ''speed'' (R (3 / 2)) ''manual'' (- 4)))
              ''voice'' ''speed'' ''confidence'' = Some (I 0)"
    by (simp add: stored_field_after_set dget_preference_doc clamp01_def)
  have v2: "stored_field ex_inferred ''behavior'' ''preferred_app'' ''confidence'' = Some (I 1)"
    by (simp add: e stored_field_def stored_preference_def find_one_def preference_query_def
          dget_def mongo_eq_def)
  from written_confidence_in_unit[of ex_now 1 "Some ex_empty" "''voice''" "''speed''" "R (3 / 2)"
         "''manual''" "- 4" "''pref_1''" "()"] h1
  have u1: "in_unit (stored_field (snd (set_preference ex_now 1 (Some ex_empty) ''voice'' ''speed'' (R (3 / 2)) ''manual'' (- 4)))
                ''voice'' ''speed'' ''confidence'')"
    by blast
  from written_confidence_in_unit[of ex_now 2 "Some ex_empty" "''behavior''" "''preferred_app''"
         "S ''Chrome''" "''manual''" "5 / 2" "''pref_2''" "()"] h2
  have u2: "in_unit (stored_field ex_inferred ''behavior'' ''preferred_app'' ''confidence'')"
    unfolding ex_inferred_def by blast
  from written_confidence_in_unit[of ex_now 2 ex_inferred "''behavior''" "''preferred_app''"
         "S ''Chrome''" "''manual''" "5 / 2" "''pref_2''" "()"] h3
  have u3: "in_unit (stored_field (snd (apply_preference ex_now ex_inferred ''behavior'' ''preferred_app''))
                ''behavior'' ''preferred_app'' ''confidence'')"
    by blast
  show ?thesis using v1 v2 u1 u2 u3 by blast
qed

text \<open>
  Claim C3 asks for a version that grows with every write. The code writes the
  constant 1: after any \<^verbatim>\<open>set_preference\<close> the stored version is 1, and after a
  second call with the same category, key and value it is 1 again, not greater.
\<close>

theorem set_preference_version_stays_one:
  "stored_field (snd (set_preference now millis (Some db) category key v source x))
     category key ''version'' = Some (I 1)
   \<and> stored_field
         (snd (set_preference now' millis'
                 (snd (set_preference now millis (Some db) category key v source x))
                 category key v source x))
         category key ''version'' = Some (I 1)"
proof -
  obtain db' where db': "snd (set_preference now millis (Some db) category key v source x) = Some db'"
    by (simp add: set_preference_def)
  have first: "stored_field (snd (set_preference now millis (Some db) category key v source x))
                 category key ''version'' = Some (I 1)"
    by (simp add: stored_field_after_set dget_preference_doc)
  have second: "stored_field (snd (set_preference now' millis' (Some db') category key v source x))
                  category key ''version'' = Some (I 1)"
    by (simp add: stored_field_after_set dget_preference_doc)
  show ?thesis using first second unfolding db' by simp
qed

section \<open>Searching memories\<close>

lemma semantic_search_shape:
  assumes "semantic_search ev (Some db) query memory_type limit threshold = Inr rs"
  shows "rs = [] \<or> (\<exists>sims. rs = py_take limit (sort_desc search_key_lt search_key
              (map (\<lambda>(m, s). dset ''similarity_score'' (R s) m)
                 (filter (\<lambda>(m, s). threshold \<le> s)
                    (zip (find (\<lambda>d. mongo_eq (dget d ''archived'') (B False) \<and> type_filter memory_type d) (memories db)) sims)))))"
proof -
  let ?all = "find (\<lambda>d. mongo_eq (dget d ''archived'') (B False) \<and> type_filter memory_type d) (memories db)"
  let ?cs = "map (\<lambda>m. dget_or m ''content'' (S [])) ?all"
  show ?thesis
  proof (cases "?all = []")
    case True
    with assms show ?thesis by (simp add: semantic_search_def)
  next
    case ne: False
    show ?thesis
    proof (cases "list_ex truthy ?cs")
      case False
      with assms ne show ?thesis by (simp add: semantic_search_def Let_def)
    next
      case tr: True
      show ?thesis
      proof (cases "tfidf_cosine ev query ?cs")
        case None
        with assms ne tr show ?thesis by (simp add: semantic_search_def Let_def)
      next
        case (Some sims)
        with assms ne tr show ?thesis
          by (simp add: semantic_search_def Let_def split: if_splits) blast
      qed
    qed
  qed
qed


lemma not_archived: "mongo_eq (dget d ''archived'') (B False) \<Longrightarrow> dget d ''archived'' \<noteq> Some (B True)"
  by (auto simp: mongo_eq_def)

lemma add_match_scores_origin:
  "add_match_scores query ms = Inr rs \<Longrightarrow> r \<in> set rs
     \<Longrightarrow> \<exists>d\<in>set ms. \<exists>v. r = dset ''match_score'' (R v) d"
  by (induction ms arbitrary: rs) (auto split: sum.splits)

lemma semantic_search_origin:
  assumes "semantic_search ev (Some db) query memory_type limit threshold = Inr rs" and "r \<in> set rs"
  shows "\<exists>d\<in>set (memories db). mongo_eq (dget d ''archived'') (B False)
            \<and> (\<exists>v. r = dset ''similarity_score'' (R v) d)"
proof -
  let ?all = "find (\<lambda>d. mongo_eq (dget d ''archived'') (B False) \<and> type_filter memory_type d) (memories db)"
  have ne: "rs \<noteq> []" using assms(2) by (cases rs) simp_all
  with semantic_search_shape[OF assms(1)] obtain sims where
    rs: "rs = py_take limit (sort_desc search_key_lt search_key
              (map (\<lambda>(m, s). dset ''similarity_score'' (R s) m)
                 (filter (\<lambda>(m, s). threshold \<le> s) (zip ?all sims))))"
    by blast
  define scored where "scored = map (\<lambda>(m, s). dset ''similarity_score'' (R s) m)
                 (filter (\<lambda>(m, s). threshold \<le> s) (zip ?all sims))"
  have "set rs \<subseteq> set (sort_desc search_key_lt search_key scored)"
    unfolding rs scored_def by (rule set_py_take)
  with assms(2) have "r \<in> set scored" by (auto simp only: set_sort_desc)
  then obtain p where p: "p \<in> set (filter (\<lambda>(m, s). threshold \<le> s) (zip ?all sims))"
    and r: "r = (\<lambda>(m, s). dset ''similarity_score'' (R s) m) p"
    unfolding scored_def by (auto simp only: set_map)
  obtain m s where ms: "p = (m, s)" by (cases p)
  from p ms have "(m, s) \<in> set (zip ?all sims)" by simp
  then have "m \<in> set ?all" by (rule set_zip_leftD)
  then have m: "m \<in> set (memories db)" "mongo_eq (dget m ''archived'') (B False)"
    by (simp_all add: find_def)
  from r ms have "r = dset ''similarity_score'' (R s) m" by simp
  with m show ?thesis by blast
qed

lemma set_regex_results:
  assumes "d \<in> set (regex_results rx db query memory_type limit)"
  shows "d \<in> set (memories db) \<and> mongo_eq (dget d ''archived'') (B False)"
proof -
  define q where "q = (\<lambda>d. mongo_eq (dget d ''archived'') (B False)
                      \<and> (content_regex rx d \<or> mongo_eq (dget d ''tags'') (S (lower query)))
                      \<and> type_filter memory_type d)"
  have r: "regex_results rx db query memory_type limit
             = mongo_limit limit (sort_desc importance_timestamp_lt (\<lambda>d. d) (find q (memories db)))"
    by (simp add: regex_results_def q_def)
  have "set (regex_results rx db query memory_type limit)
          \<subseteq> set (sort_desc importance_timestamp_lt (\<lambda>d. d) (find q (memories db)))"
    unfolding r by (rule set_mongo_limit)
  with assms have "d \<in> set (sort_desc importance_timestamp_lt (\<lambda>d. d) (find q (memories db)))"
    by (rule rev_subsetD)
  then have "d \<in> set (memories db) \<and> q d"
    by (simp add: set_sort_desc find_def)
  then show ?thesis by (simp add: q_def)
qed

lemma scored_results_origin:
  assumes "scored_results query ms = Inr rs" and "r \<in> set rs"
  shows "\<exists>d\<in>set ms. \<exists>v. r = dset ''match_score'' (R v) d"
proof -
  from assms(1) have "add_match_scores query ms = Inr rs"
    by (simp add: scored_results_def split: sum.splits)
  from add_match_scores_origin[OF this assms(2)] show ?thesis .
qed

lemma search_memories_origin:
  assumes "search_memories ev (Some db) query memory_type limit use_semantic = Inr rs" and "r \<in> set rs"
  shows "\<exists>d\<in>set (memories db). mongo_eq (dget d ''archived'') (B False)
            \<and> (\<exists>v. r = dset ''match_score'' (R v) d \<or> r = dset ''similarity_score'' (R v) d)"
proof (cases "regex_i ev query")
  case None
  with assms show ?thesis by (simp add: search_memories_def)
next
  case (Some rx)
  let ?reg = "regex_results rx db query memory_type limit"
  have scored: ?thesis if sc: "scored_results query ?reg = Inr rs"
  proof -
    from scored_results_origin[OF sc assms(2)]
    obtain d v where d: "d \<in> set ?reg" and r: "r = dset ''match_score'' (R v) d" by blast
    from set_regex_results[OF d] r show ?thesis by blast
  qed
  have sem: ?thesis if s: "semantic_search ev (Some db) query memory_type limit (3 / 10) = Inr rs"
    using semantic_search_origin[OF s assms(2)] by blast
  from assms(1) Some have
    "semantic_search ev (Some db) query memory_type limit (3 / 10) = Inr rs
     \<or> scored_results query ?reg = Inr rs"
    by (simp add: search_memories_def split: if_splits sum.splits)
  then show ?thesis using scored sem by blast
qed

lemma get_memory_first:
  assumes i: "i < length (memories db)"
    and id: "dget (memories db ! i) ''memory_id'' = Some (S memory_id)"
    and first: "\<forall>j<i. \<not> mongo_eq (dget (memories db ! j) ''memory_id'') (S memory_id)"
    and n: "dget (memories db ! i) ''access_count'' = Some (I n)"
  shows "get_memory now (Some db) memory_id
           = (Inr (dset ''last_accessed'' (T now) (dset ''access_count'' (I (n + 1)) (memories db ! i))),
              Some (db\<lparr>memories := (memories db)
                      [i := dset ''last_accessed'' (T now) (dset ''access_count'' (I (n + 1)) (memories db ! i))]\<rparr>))"
proof -
  let ?q = "\<lambda>d. mongo_eq (dget d ''memory_id'') (S memory_id)"
  let ?m = "memories db ! i"
  let ?m' = "dset ''last_accessed'' (T now) (dset ''access_count'' (I (n + 1)) ?m)"
  have q: "?q ?m" by (simp add: id mongo_eq_def)
  have f: "find_one ?q (memories db) = Some ?m"
    unfolding find_one_def by (rule find_first[OF i q first])
  have inc: "inc_access_count ?m = Inr (dset ''access_count'' (I (n + 1)) ?m)"
    by (simp add: inc_access_count_def n)
  have u: "update_one ?q (\<lambda>d. ?m') (memories db) = (memories db)[i := ?m']"
    using update_one_first[of i "memories db" ?q "\<lambda>d. ?m'"] i q first by blast
  have q': "?q ?m'" by (simp add: dget_dset id mongo_eq_def)
  have first': "\<forall>j<i. \<not> ?q ((memories db)[i := ?m'] ! j)" using first by simp
  have f': "find_one ?q ((memories db)[i := ?m']) = Some ?m'"
    unfolding find_one_def
    using find_first[of i "(memories db)[i := ?m']" ?q] i q' first' by simp
  show ?thesis
    by (simp add: get_memory_def f inc u f')
qed

lemma ex_saved_eq:
  "ex_saved = Some (ex_empty\<lparr>memories :=
     [[(''memory_id'', S ''mem_1''), (''type'', S ''conversation''), (''content'', S ''rain tomorrow''),
       (''timestamp'', T (ex_now - 100 * day_us)), (''context'', D []), (''tags'', L []),
       (''importance'', S ''low''), (''relevance_score'', R 1), (''expiry_date'', Null),
       (''archived'', B False), (''access_count'', I 0), (''last_accessed'', Null)],
      [(''memory_id'', S ''mem_2''), (''type'', S ''conversation''), (''content'', S ''morning workout''),
       (''timestamp'', T ex_now), (''context'', D []), (''tags'', L [S ''health'']),
       (''importance'', S ''medium''), (''relevance_score'', R 1), (''expiry_date'', Null),
       (''archived'', B False), (''access_count'', I 0), (''last_accessed'', Null)]]\<rparr>)"
  by (simp add: ex_saved_def save_memory_def insert_one_def ex_empty_def str_nat.simps digit_char_def)

lemma ex_swept_eq:
  "ex_swept = Some (ex_empty\<lparr>memories :=
     [[(''memory_id'', S ''mem_1''), (''type'', S ''conversation''), (''content'', S ''rain tomorrow''),
       (''timestamp'', T (ex_now - 100 * day_us)), (''context'', D []), (''tags'', L []),
       (''importance'', S ''low''), (''relevance_score'', R 1), (''expiry_date'', Null),
       (''archived'', B True), (''access_count'', I 0), (''last_accessed'', Null),
       (''archived_at'', T ex_now)],
      [(''memory_id'', S ''mem_2''), (''type'', S ''conversation''), (''content'', S ''morning workout''),
       (''timestamp'', T ex_now), (''context'', D []), (''tags'', L [S ''health'']),
       (''importance'', S ''medium''), (''relevance_score'', R 1), (''expiry_date'', Null),
       (''archived'', B False), (''access_count'', I 0), (''last_accessed'', Null)]]\<rparr>)"
proof -
  let ?m1 = "[(''memory_id'', S ''mem_1''), (''type'', S ''conversation''), (''content'', S ''rain tomorrow''),
       (''timestamp'', T (ex_now - 100 * day_us)), (''context'', D []), (''tags'', L []),
       (''importance'', S ''low''), (''relevance_score'', R 1), (''expiry_date'', Null),
       (''archived'', B False), (''access_count'', I 0), (''last_accessed'', Null)]"
  let ?m2 = "[(''memory_id'', S ''mem_2''), (''type'', S ''conversation''), (''content'', S ''morning workout''),
       (''timestamp'', T ex_now), (''context'', D []), (''tags'', L [S ''health'']),
       (''importance'', S ''medium''), (''relevance_score'', R 1), (''expiry_date'', Null),
       (''archived'', B False), (''access_count'', I 0), (''last_accessed'', Null)]"
  obtain r db' where ok: "cleanup_old_memories ex_now (Some (ex_empty\<lparr>memories := [?m1, ?m2]\<rparr>)) 90 = (Inr r, Some db')"
    using cleanup_succeeds[of 90 ex_now "ex_empty\<lparr>memories := [?m1, ?m2]\<rparr>"]
    by (auto simp: ex_now_def day_us_def dt_max_def)
  have s1: "swept ex_now (retention_policies 90) ?m1"
    by (simp add: retention_policies_def ex_cutoff sweep_query_def mongo_eq_def ts_lt_def dget_def day_us_def)
  have s2: "\<not> swept ex_now (retention_policies 90) ?m2"
    by (simp add: retention_policies_def ex_cutoff sweep_query_def mongo_eq_def dget_def)
  have a1: "archive ex_now ?m1 = [(''memory_id'', S ''mem_1''), (''type'', S ''conversation''), (''content'', S ''rain tomorrow''),
       (''timestamp'', T (ex_now - 100 * day_us)), (''context'', D []), (''tags'', L []),
       (''importance'', S ''low''), (''relevance_score'', R 1), (''expiry_date'', Null),
       (''archived'', B True), (''access_count'', I 0), (''last_accessed'', Null),
       (''archived_at'', T ex_now)]"
    by (simp add: archive_def)
  from cleanup_result[OF ok] have "Some db' = Some (ex_empty\<lparr>memories := [archive ex_now ?m1, ?m2]\<rparr>)"
    using s1 s2 by simp
  with ok a1 show ?thesis
    by (simp add: ex_swept_def ex_saved_eq)
qed

lemma lower_samples:
  "lower ''o'' = ''o''" "lower ''rain tomorrow'' = ''rain tomorrow''"
  "lower ''morning workout'' = ''morning workout''" "lower ''rain'' = ''rain''"
  by (simp_all add: lower_def lower_char_def)

lemma ex_search:
  "search_memories ex_env ex_swept ''o'' None 20 True
     = Inr [[(''memory_id'', S ''mem_2''), (''type'', S ''conversation''), (''content'', S ''morning workout''),
       (''timestamp'', T ex_now), (''context'', D []), (''tags'', L [S ''health'']),
       (''importance'', S ''medium''), (''relevance_score'', R 1), (''expiry_date'', Null),
       (''archived'', B False), (''access_count'', I 0), (''last_accessed'', Null),
       (''match_score'', R (95 / 100))]]"
  by (simp add: ex_swept_eq search_memories_def ex_env_def regex_results_def find_def mongo_eq_def
        dget_def dget_or_def content_regex_def type_filter_def lower_samples sort_desc_def
        mongo_limit_def scored_results_def match_score_def)


lemma ex_semantic:
  "semantic_search ex_env ex_swept ''morning workout'' None 20 (3 / 10)
     = Inr [[(''memory_id'', S ''mem_2''), (''type'', S ''conversation''), (''content'', S ''morning workout''),
       (''timestamp'', T ex_now), (''context'', D []), (''tags'', L [S ''health'']),
       (''importance'', S ''medium''), (''relevance_score'', R 1), (''expiry_date'', Null),
       (''archived'', B False), (''access_count'', I 0), (''last_accessed'', Null),
       (''similarity_score'', R 1)]]"
  by (simp add: ex_swept_eq semantic_search_def ex_env_def ex_tfidf_def find_def mongo_eq_def
        dget_def dget_or_def type_filter_def sort_desc_def py_take_def unhashable_def)

text \<open>
  Claim C9. A memory with \<^verbatim>\<open>archived=true\<close> is in no result of
  \<^verbatim>\<open>search_memories\<close> or \<^verbatim>\<open>semantic_search\<close>: every memory they return is a
  stored memory that is not archived, with its score attached. \<^verbatim>\<open>get_memory\<close> with
  the id of an archived memory (the first stored under that id, its access count a
  number) still returns it, archived flag and content as stored, the access counted.
\<close>

theorem archived_hidden_from_search_found_by_id:
  "(search_memories ev (Some db) query memory_type limit use_semantic = Inr rs
      \<longrightarrow> (\<forall>r\<in>set rs. dget r ''archived'' \<noteq> Some (B True)
             \<and> (\<exists>d\<in>set (memories db). dget d ''archived'' \<noteq> Some (B True)
                    \<and> (\<exists>v. r = dset ''match_score'' (R v) d \<or> r = dset ''similarity_score'' (R v) d))))
   \<and> (semantic_search ev (Some db) query memory_type limit threshold = Inr rs
        \<longrightarrow> (\<forall>r\<in>set rs. dget r ''archived'' \<noteq> Some (B True)
               \<and> (\<exists>d\<in>set (memories db). dget d ''archived'' \<noteq> Some (B True)
                      \<and> (\<exists>v. r = dset ''similarity_score'' (R v) d))))
   \<and> (i < length (memories db)
        \<and> dget (memories db ! i) ''memory_id'' = Some (S memory_id)
        \<and> (\<forall>j<i. \<not> mongo_eq (dget (memories db ! j) ''memory_id'') (S memory_id))
        \<and> dget (memories db ! i) ''archived'' = Some (B True)
        \<and> dget (memories db ! i) ''access_count'' = Some (I n)
        \<longrightarrow> (\<exists>m db'. get_memory now (Some db) memory_id = (Inr m, Some db')
               \<and> m = dset ''last_accessed'' (T now) (dset ''access_count'' (I (n + 1)) (memories db ! i))
               \<and> dget m ''archived'' = Some (B True)
               \<and> dget m ''memory_id'' = Some (S memory_id)
               \<and> dget m ''content'' = dget (memories db ! i) ''content''))"
proof (intro conjI impI ballI)
  fix r
  assume s: "search_memories ev (Some db) query memory_type limit use_semantic = Inr rs" and r: "r \<in> set rs"
  from search_memories_origin[OF s r] obtain d v
    where d: "d \<in> set (memories db)" "mongo_eq (dget d ''archived'') (B False)"
      and rv: "r = dset ''match_score'' (R v) d \<or> r = dset ''similarity_score'' (R v) d" by blast
  from d(2) have na: "dget d ''archived'' \<noteq> Some (B True)" by (rule not_archived)
  from rv na show "dget r ''archived'' \<noteq> Some (B True)" by (auto simp: dget_dset)
  from d(1) na rv
  show "\<exists>d\<in>set (memories db). dget d ''archived'' \<noteq> Some (B True)
          \<and> (\<exists>v. r = dset ''match_score'' (R v) d \<or> r = dset ''similarity_score'' (R v) d)"
    by blast
next
  fix r
  assume s: "semantic_search ev (Some db) query memory_type limit threshold = Inr rs" and r: "r \<in> set rs"
  from semantic_search_origin[OF s r] obtain d v
    where d: "d \<in> set (memories db)" "mongo_eq (dget d ''archived'') (B False)"
      and rv: "r = dset ''similarity_score'' (R v) d" by blast
  from d(2) have na: "dget d ''archived'' \<noteq> Some (B True)" by (rule not_archived)
  from rv na show "dget r ''archived'' \<noteq> Some (B True)" by (simp add: dget_dset)
  from d(1) na rv
  show "\<exists>d\<in>set (memories db). dget d ''archived'' \<noteq> Some (B True)
          \<and> (\<exists>v. r = dset ''similarity_score'' (R v) d)"
    by blast
next
  assume a: "i < length (memories db)
        \<and> dget (memories db ! i) ''memory_id'' = Some (S memory_id)
        \<and> (\<forall>j<i. \<not> mongo_eq (dget (memories db ! j) ''memory_id'') (S memory_id))
        \<and> dget (memories db ! i) ''archived'' = Some (B True)
        \<and> dget (memories db ! i) ''access_count'' = Some (I n)"
  then have g: "get_memory now (Some db) memory_id
           = (Inr (dset ''last_accessed'' (T now) (dset ''access_count'' (I (n + 1)) (memories db ! i))),
              Some (db\<lparr>memories := (memories db)
                      [i := dset ''last_accessed'' (T now) (dset ''access_count'' (I (n + 1)) (memories db ! i))]\<rparr>))"
    using get_memory_first[of i db memory_id n now] by blast
  from a have f: "dget (dset ''last_accessed'' (T now) (dset ''access_count'' (I (n + 1)) (memories db ! i))) ''archived'' = Some (B True)"
    "dget (dset ''last_accessed'' (T now) (dset ''access_count'' (I (n + 1)) (memories db ! i))) ''memory_id'' = Some (S memory_id)"
    "dget (dset ''last_accessed'' (T now) (dset ''access_count'' (I (n + 1)) (memories db ! i))) ''content'' = dget (memories db ! i) ''content''"
    by (simp_all add: dget_dset)
  show "\<exists>m db'. get_memory now (Some db) memory_id = (Inr m, Some db')
               \<and> m = dset ''last_accessed'' (T now) (dset ''access_count'' (I (n + 1)) (memories db ! i))
               \<and> dget m ''archived'' = Some (B True)
               \<and> dget m ''memory_id'' = Some (S memory_id)
               \<and> dget m ''content'' = dget (memories db ! i) ''content''"
    unfolding g using f by simp
qed

theorem archived_hidden_from_search_found_by_id_witness:
  "hits (search_memories ex_env ex_swept ''o'' None 20 True) = [(Some (S ''morning workout''), None)]
   \<and> list_all (\<lambda>r. dget r ''archived'' \<noteq> Some (B True))
         (case search_memories ex_env ex_swept ''o'' None 20 True of Inl f \<Rightarrow> [] | Inr rs \<Rightarrow> rs)
   \<and> hits (semantic_search ex_env ex_swept ''morning workout'' None 20 (3 / 10))
         = [(Some (S ''morning workout''), Some (R 1))]
   \<and> list_all (\<lambda>r. dget r ''archived'' \<noteq> Some (B True))
         (case semantic_search ex_env ex_swept ''morning workout'' None 20 (3 / 10) of Inl f \<Rightarrow> [] | Inr rs \<Rightarrow> rs)
   \<and> (\<exists>m db'. get_memory ex_now ex_swept ''mem_1'' = (Inr m, Some db')
          \<and> dget m ''archived'' = Some (B True)
          \<and> dget m ''content'' = Some (S ''rain tomorrow'')
          \<and> dget m ''access_count'' = Some (I 1))"
proof -
  obtain db where db: "ex_swept = Some db"
    and mems: "memories db =
     [[(''memory_id'', S ''mem_1''), (''type'', S ''conversation''), (''content'', S ''rain tomorrow''),
       (''timestamp'', T (ex_now - 100 * day_us)), (''context'', D []), (''tags'', L []),
       (''importance'', S ''low''), (''relevance_score'', R 1), (''expiry_date'', Null),
       (''archived'', B True), (''access_count'', I 0), (''last_accessed'', Null),
       (''archived_at'', T ex_now)],
      [(''memory_id'', S ''mem_2''), (''type'', S ''conversation''), (''content'', S ''morning workout''),
       (''timestamp'', T ex_now), (''context'', D []), (''tags'', L [S ''health'']),
       (''importance'', S ''medium''), (''relevance_score'', R 1), (''expiry_date'', Null),
       (''archived'', B False), (''access_count'', I 0), (''last_accessed'', Null)]]"
    by (simp add: ex_swept_eq)
  obtain rs1 where s1: "search_memories ex_env (Some db) ''o'' None 20 True = Inr rs1"
    using ex_search db by simp
  obtain rs2 where s2: "semantic_search ex_env (Some db) ''morning workout'' None 20 (3 / 10) = Inr rs2"
    using ex_semantic db by simp
  have h1: "hits (search_memories ex_env ex_swept ''o'' None 20 True) = [(Some (S ''morning workout''), None)]"
    by (simp add: ex_search hits_def dget_def)
  have h2: "hits (semantic_search ex_env ex_swept ''morning workout'' None 20 (3 / 10))
              = [(Some (S ''morning workout''), Some (R 1))]"
    by (simp add: ex_semantic hits_def dget_def)
  from archived_hidden_from_search_found_by_id[of ex_env db "''o''" None 20 True rs1] s1
  have "\<forall>r\<in>set rs1. dget r ''archived'' \<noteq> Some (B True)" by blast
  then have a1: "list_all (\<lambda>r. dget r ''archived'' \<noteq> Some (B True))
         (case search_memories ex_env ex_swept ''o'' None 20 True of Inl f \<Rightarrow> [] | Inr rs \<Rightarrow> rs)"
    by (simp add: db s1 list_all_iff)
  from archived_hidden_from_search_found_by_id[of ex_env db "''morning workout''" None 20 _ rs2 "3 / 10"] s2
  have "\<forall>r\<in>set rs2. dget r ''archived'' \<noteq> Some (B True)" by blast
  then have a2: "list_all (\<lambda>r. dget r ''archived'' \<noteq> Some (B True))
         (case semantic_search ex_env ex_swept ''morning workout'' None 20 (3 / 10) of Inl f \<Rightarrow> [] | Inr rs \<Rightarrow> rs)"
    by (simp add: db s2 list_all_iff)
  have pre: "0 < length (memories db)
        \<and> dget (memories db ! 0) ''memory_id'' = Some (S ''mem_1'')
        \<and> (\<forall>j<0. \<not> mongo_eq (dget (memories db ! j) ''memory_id'') (S ''mem_1''))
        \<and> dget (memories db ! 0) ''archived'' = Some (B True)
        \<and> dget (memories db ! 0) ''access_count'' = Some (I 0)"
    by (simp add: mems dget_def)
  from archived_hidden_from_search_found_by_id[of ex_env db "''o''" None 20 True rs1 _ 0 "''mem_1''" 0 ex_now] pre
  obtain m db' where g: "get_memory ex_now (Some db) ''mem_1'' = (Inr m, Some db')"
    and m: "m = dset ''last_accessed'' (T ex_now) (dset ''access_count'' (I (0 + 1)) (memories db ! 0))"
    and ar: "dget m ''archived'' = Some (B True)"
    and ct: "dget m ''content'' = dget (memories db ! 0) ''content''"
    by blast
  have c: "dget m ''content'' = Some (S ''rain tomorrow'')" using ct by (simp add: mems dget_def)
  have n: "dget m ''access_count'' = Some (I 1)" by (simp add: m dget_dset)
  have g3: "\<exists>m db'. get_memory ex_now ex_swept ''mem_1'' = (Inr m, Some db')
          \<and> dget m ''archived'' = Some (B True)
          \<and> dget m ''content'' = Some (S ''rain tomorrow'')
          \<and> dget m ''access_count'' = Some (I 1)"
    unfolding db using g ar c n by blast
  show ?thesis using h1 a1 h2 a2 g3 by (intro conjI)
qed

subsection \<open>The order of the semantic results\<close>

lemma not_search_key_lt:
  "\<not> search_key_lt (search_key a) (search_key b) \<Longrightarrow> similarity_of a \<le> similarity_of b"
  by (auto simp: search_key_lt_def search_key_def)

lemma search_key_lt_le:
  "search_key_lt (search_key a) (search_key b) \<Longrightarrow> similarity_of b \<le> similarity_of a"
  by (auto simp: search_key_lt_def search_key_def)

lemma rising_insert_desc:
  "sorted_wrt (\<lambda>a b. similarity_of a \<le> similarity_of b) ys
     \<Longrightarrow> sorted_wrt (\<lambda>a b. similarity_of a \<le> similarity_of b)
           (insert_desc search_key_lt search_key x ys)"
proof (induction ys)
  case Nil
  then show ?case by simp
next
  case (Cons y ys)
  show ?case
  proof (cases "search_key_lt (search_key x) (search_key y)")
    case True
    then have yx: "similarity_of y \<le> similarity_of x" by (rule search_key_lt_le)
    from Cons.prems have ys: "\<forall>z\<in>set ys. similarity_of y \<le> similarity_of z"
      and s: "sorted_wrt (\<lambda>a b. similarity_of a \<le> similarity_of b) ys" by simp_all
    from Cons.IH[OF s] yx ys True show ?thesis by (simp add: set_insert_desc)
  next
    case False
    then have xy: "similarity_of x \<le> similarity_of y" by (rule not_search_key_lt)
    from Cons.prems have ys: "\<forall>z\<in>set ys. similarity_of y \<le> similarity_of z" by simp
    with xy have "\<forall>z\<in>set ys. similarity_of x \<le> similarity_of z" by force
    with Cons.prems xy False show ?thesis by simp
  qed
qed

lemma rising_sort_desc:
  "sorted_wrt (\<lambda>a b. similarity_of a \<le> similarity_of b) (sort_desc search_key_lt search_key xs)"
  by (induction xs) (simp_all add: sort_desc_def rising_insert_desc)

lemma rising_py_take:
  "sorted_wrt P xs \<Longrightarrow> sorted_wrt P (py_take n xs)"
  by (simp add: py_take_def sorted_wrt_take)

lemma semantic_search_rising:
  assumes "semantic_search ev (Some db) query memory_type limit threshold = Inr rs"
  shows "sorted_wrt (\<lambda>a b. similarity_of a \<le> similarity_of b) rs"
proof -
  from semantic_search_shape[OF assms] show ?thesis
  proof (elim disjE exE)
    assume "rs = []"
    then show ?thesis by simp
  next
    fix sims
    assume "rs = py_take limit (sort_desc search_key_lt search_key
              (map (\<lambda>(m, s). dset ''similarity_score'' (R s) m)
                 (filter (\<lambda>(m, s). threshold \<le> s)
                    (zip (find (\<lambda>d. mongo_eq (dget d ''archived'') (B False) \<and> type_filter memory_type d) (memories db)) sims))))"
    then show ?thesis by (simp only: rising_py_take rising_sort_desc)
  qed
qed

lemma similarity_of_scored: "similarity_of (dset ''similarity_score'' (R s) m) = s"
  by (simp add: similarity_of_def dget_or_def dget_dset[unfolded dget_def])


lemma semantic_search_scores:
  assumes "semantic_search ev (Some db) query memory_type limit threshold = Inr rs" and "r \<in> set rs"
  shows "dget r ''similarity_score'' = Some (R (similarity_of r)) \<and> threshold \<le> similarity_of r"
proof -
  let ?all = "find (\<lambda>d. mongo_eq (dget d ''archived'') (B False) \<and> type_filter memory_type d) (memories db)"
  have ne: "rs \<noteq> []" using assms(2) by (cases rs) simp_all
  with semantic_search_shape[OF assms(1)] obtain sims where
    rs: "rs = py_take limit (sort_desc search_key_lt search_key
              (map (\<lambda>(m, s). dset ''similarity_score'' (R s) m)
                 (filter (\<lambda>(m, s). threshold \<le> s) (zip ?all sims))))"
    by blast
  define scored where "scored = map (\<lambda>(m, s). dset ''similarity_score'' (R s) m)
                 (filter (\<lambda>(m, s). threshold \<le> s) (zip ?all sims))"
  have "set rs \<subseteq> set (sort_desc search_key_lt search_key scored)"
    unfolding rs scored_def by (rule set_py_take)
  with assms(2) have "r \<in> set scored" by (auto simp only: set_sort_desc)
  then obtain p where p: "p \<in> set (filter (\<lambda>(m, s). threshold \<le> s) (zip ?all sims))"
    and r: "r = (\<lambda>(m, s). dset ''similarity_score'' (R s) m) p"
    unfolding scored_def by (auto simp only: set_map)
  obtain m s where ms: "p = (m, s)" by (cases p)
  from p ms have th: "threshold \<le> s" by simp
  from r ms have r': "r = dset ''similarity_score'' (R s) m" by simp
  show ?thesis unfolding r' using th by (simp add: similarity_of_scored dget_dset)
qed

lemma semantic_search_orders_by_rising_similarity:
  "semantic_search ev (Some db) query memory_type limit threshold = Inr rs
     \<longrightarrow> rising rs
         \<and> (\<forall>i j. i < j \<and> j < length rs \<longrightarrow> similarity_of (rs ! i) \<le> similarity_of (rs ! j))
         \<and> list_all (\<lambda>r. dget r ''similarity_score'' = Some (R (similarity_of r))
                          \<and> threshold \<le> similarity_of r) rs"
proof
  assume s: "semantic_search ev (Some db) query memory_type limit threshold = Inr rs"
  have r: "sorted_wrt (\<lambda>a b. similarity_of a \<le> similarity_of b) rs"
    by (rule semantic_search_rising[OF s])
  then have i: "\<forall>i j. i < j \<and> j < length rs \<longrightarrow> similarity_of (rs ! i) \<le> similarity_of (rs ! j)"
    by (simp add: sorted_wrt_iff_nth_less)
  have l: "list_all (\<lambda>r. dget r ''similarity_score'' = Some (R (similarity_of r))
                          \<and> threshold \<le> similarity_of r) rs"
    unfolding list_all_iff using semantic_search_scores[OF s] by blast
  show "rising rs
         \<and> (\<forall>i j. i < j \<and> j < length rs \<longrightarrow> similarity_of (rs ! i) \<le> similarity_of (rs ! j))
         \<and> list_all (\<lambda>r. dget r ''similarity_score'' = Some (R (similarity_of r))
                          \<and> threshold \<le> similarity_of r) rs"
    using r i l by (simp add: rising_def)
qed

text \<open>
  On equal scores the order is by falling importance rank and then by falling
  timestamp, as the key has them.
\<close>

lemma ex_ties_eq:
  "ex_ties = Some (ex_empty\<lparr>memories :=
     [[(''memory_id'', S ''mem_31''), (''type'', S ''fact''), (''content'', S ''green tea''),
       (''timestamp'', T (ex_now - day_us)), (''context'', D []), (''tags'', L []),
       (''importance'', S ''low''), (''relevance_score'', R 1), (''expiry_date'', Null),
       (''archived'', B False), (''access_count'', I 0), (''last_accessed'', Null)],
      [(''memory_id'', S ''mem_32''), (''type'', S ''fact''), (''content'', S ''green tea''),
       (''timestamp'', T (ex_now - day_us)), (''context'', D []), (''tags'', L []),
       (''importance'', S ''high''), (''relevance_score'', R 1), (''expiry_date'', Null),
       (''archived'', B False), (''access_count'', I 0), (''last_accessed'', Null)],
      [(''memory_id'', S ''mem_33''), (''type'', S ''fact''), (''content'', S ''green tea''),
       (''timestamp'', T ex_now), (''context'', D []), (''tags'', L []),
       (''importance'', S ''high''), (''relevance_score'', R 1), (''expiry_date'', Null),
       (''archived'', B False), (''access_count'', I 0), (''last_accessed'', Null)]]\<rparr>)"
  by (simp add: ex_ties_def save_memory_def insert_one_def ex_empty_def str_nat.simps digit_char_def)

lemma semantic_search_tie_breaks:
  "hit_ids (semantic_search ex_env ex_ties ''green tea'' None 20 (3 / 10))
     = [(Some (S ''mem_33''), Some (R 1)),
        (Some (S ''mem_32''), Some (R 1)),
        (Some (S ''mem_31''), Some (R 1))]"
  by (simp add: ex_ties_eq semantic_search_def ex_env_def ex_tfidf_def find_def mongo_eq_def
        dget_def dget_or_def type_filter_def sort_desc_def py_take_def unhashable_def hit_ids_def
        search_key_def search_key_lt_def similarity_of_def importance_rank_def ts_key_def opt_lt_def
        day_us_def)

lemma ex_rain_eq:
  "ex_rain = Some (ex_empty\<lparr>memories :=
     [ex_fact ''mem_41'' ''rain tomorrow forecast'', ex_fact ''mem_42'' ''rain tomorrow'',
      ex_fact ''mem_43'' ''rain'']\<rparr>)"
  by (simp add: ex_rain_def save_memory_def insert_one_def ex_empty_def str_nat.simps digit_char_def
        ex_fact_def)

lemma rain_query_order:
  assumes row: "tfidf_cosine ev ''rain tomorrow forecast''
                  [S ''rain tomorrow forecast'', S ''rain tomorrow'', S ''rain''] = Some [s1, s2, s3]"
    and th: "3 / 10 \<le> s3" and lt: "s3 < s2" "s2 < s1"
  shows "hits (semantic_search ev ex_rain ''rain tomorrow forecast'' None 20 (3 / 10))
           = [(Some (S ''rain''), Some (R s3)),
              (Some (S ''rain tomorrow''), Some (R s2)),
              (Some (S ''rain tomorrow forecast''), Some (R s1))]
         \<and> hits (semantic_search ev ex_rain ''rain tomorrow forecast'' None 1 (3 / 10))
           = [(Some (S ''rain''), Some (R s3))]"
proof -
  have f: "mongo_eq (dget (ex_fact i c) ''archived'') (B False)"
          "dget_or (ex_fact i c) ''content'' (S []) = S c"
          "dget_or (ex_fact i c) ''importance'' (S ''low'') = S ''medium''" for i c
    by (simp_all add: ex_fact_def dget_def dget_or_def mongo_eq_def)
  have g: "dget (dset ''similarity_score'' (R s) (ex_fact i c)) ''content'' = Some (S c)"
          "dget (dset ''similarity_score'' (R s) (ex_fact i c)) ''similarity_score'' = Some (R s)" for i c s
    by (simp_all add: dget_dset) (simp add: ex_fact_def dget_def)
  have k: "search_key (dset ''similarity_score'' (R s) (ex_fact i c)) = (- s, 1, Some ex_now)" for i c s
    by (simp add: search_key_def similarity_of_scored importance_rank_def ts_key_def dget_or_def
          dget_dset[unfolded dget_def] dget_dset)
       (simp add: ex_fact_def dget_def)
  have h: "dget_or (dset ''similarity_score'' (R s) (ex_fact i c)) ''importance'' (S ''low'') = S ''medium''"
    for i c s
    by (simp add: dget_or_def dget_dset[unfolded dget_def]) (simp add: ex_fact_def)
  from th lt have th': "3 / 10 \<le> s2" "3 / 10 \<le> s1" by simp_all
  show ?thesis
    using th th' lt
    by (simp add: ex_rain_eq semantic_search_def find_def f type_filter_def row unhashable_def
          sort_desc_def k search_key_lt_def py_take_def hits_def g h)
qed

text \<open>
  Claim C5 asks for the most similar memory first. The key of the sort negates the
  score and the sort also runs with \<^verbatim>\<open>reverse=True\<close>, so the two cancel: whatever
  the vectoriser and the store, the similarities of a successful result never fall
  from one position to the next, each being the score stored with the memory and at
  least the threshold. For the query \<^verbatim>\<open>rain tomorrow forecast\<close> over the saved
  contents \<^verbatim>\<open>rain tomorrow forecast\<close>, \<^verbatim>\<open>rain tomorrow\<close> and \<^verbatim>\<open>rain\<close>, which
  any vectoriser scoring more shared words higher puts in that order, the result begins
  with \<^verbatim>\<open>rain\<close>, and with a limit of 1 it is \<^verbatim>\<open>rain\<close> alone.
\<close>

theorem semantic_search_least_similar_first:
  "(semantic_search ev (Some db) query memory_type limit threshold = Inr rs
      \<longrightarrow> rising rs
          \<and> (\<forall>i j. i < j \<and> j < length rs \<longrightarrow> similarity_of (rs ! i) \<le> similarity_of (rs ! j))
          \<and> list_all (\<lambda>r. dget r ''similarity_score'' = Some (R (similarity_of r))
                           \<and> threshold \<le> similarity_of r) rs)
   \<and> (tfidf_cosine ev ''rain tomorrow forecast''
          [S ''rain tomorrow forecast'', S ''rain tomorrow'', S ''rain''] = Some [s1, s2, s3]
        \<and> 3 / 10 \<le> s3 \<and> s3 < s2 \<and> s2 < s1
        \<longrightarrow> hits (semantic_search ev ex_rain ''rain tomorrow forecast'' None 20 (3 / 10))
              = [(Some (S ''rain''), Some (R s3)),
                 (Some (S ''rain tomorrow''), Some (R s2)),
                 (Some (S ''rain tomorrow forecast''), Some (R s1))]
            \<and> hits (semantic_search ev ex_rain ''rain tomorrow forecast'' None 1 (3 / 10))
              = [(Some (S ''rain''), Some (R s3))])"
  using semantic_search_orders_by_rising_similarity[of ev db query memory_type limit threshold rs]
    rain_query_order[of ev s1 s2 s3]
  by blast

theorem semantic_search_least_similar_first_witness:
  "hits (semantic_search ex_env ex_rain ''rain tomorrow forecast'' None 20 (3 / 10))
     = [(Some (S ''rain''), Some (R (457 / 1000))),
        (Some (S ''rain tomorrow''), Some (R (723 / 1000))),
        (Some (S ''rain tomorrow forecast''), Some (R 1))]
   \<and> hits (semantic_search ex_env ex_rain ''rain tomorrow forecast'' None 1 (3 / 10))
       = [(Some (S ''rain''), Some (R (457 / 1000)))]
   \<and> rising (case semantic_search ex_env ex_rain ''rain tomorrow forecast'' None 20 (3 / 10) of
                Inl f \<Rightarrow> [] | Inr rs \<Rightarrow> rs)"
proof -
  have row: "tfidf_cosine ex_env ''rain tomorrow forecast''
          [S ''rain tomorrow forecast'', S ''rain tomorrow'', S ''rain'']
          = Some [1, 723 / 1000, 457 / 1000]
        \<and> 3 / 10 \<le> (457 / 1000 :: real) \<and> (457 / 1000 :: real) < 723 / 1000
        \<and> (723 / 1000 :: real) < 1"
    by (simp add: ex_env_def ex_tfidf_def)
  obtain db where db: "ex_rain = Some db" by (simp add: ex_rain_eq)
  from semantic_search_least_similar_first[where ev = ex_env and ?s1.0 = 1 and ?s2.0 = "723 / 1000"
         and ?s3.0 = "457 / 1000"] row
  have h: "hits (semantic_search ex_env ex_rain ''rain tomorrow forecast'' None 20 (3 / 10))
              = [(Some (S ''rain''), Some (R (457 / 1000))),
                 (Some (S ''rain tomorrow''), Some (R (723 / 1000))),
                 (Some (S ''rain tomorrow forecast''), Some (R 1))]"
    and h1: "hits (semantic_search ex_env ex_rain ''rain tomorrow forecast'' None 1 (3 / 10))
              = [(Some (S ''rain''), Some (R (457 / 1000)))]"
    by blast+
  from h obtain rs where rs: "semantic_search ex_env (Some db) ''rain tomorrow forecast'' None 20 (3 / 10) = Inr rs"
    unfolding db by (cases "semantic_search ex_env (Some db) ''rain tomorrow forecast'' None 20 (3 / 10)")
      (simp_all add: hits_def)
  from semantic_search_least_similar_first[where ev = ex_env and db = db
         and query = "''rain tomorrow forecast''" and memory_type = None and limit = 20
         and threshold = "3 / 10" and rs = rs] rs
  have "rising rs" by blast
  then have r: "rising (case semantic_search ex_env ex_rain ''rain tomorrow forecast'' None 20 (3 / 10) of
                Inl f \<Rightarrow> [] | Inr rs \<Rightarrow> rs)"
    by (simp add: db rs)
  show ?thesis using h h1 r by (intro conjI)
qed

section \<open>Degenerate inputs\<close>

lemma semantic_search_no_active:
  assumes "list_all (\<lambda>d. \<not> (mongo_eq (dget d ''archived'') (B False) \<and> type_filter memory_type d))
             (memories db)"
  shows "semantic_search ev (Some db) query memory_type limit threshold = Inr []"
proof -
  have "find (\<lambda>d. mongo_eq (dget d ''archived'') (B False) \<and> type_filter memory_type d) (memories db) = []"
    unfolding find_def using assms by (rule filter_none)
  then show ?thesis by (simp add: semantic_search_def)
qed

lemma semantic_search_blank:
  assumes "list_all (\<lambda>m. \<not> truthy (dget_or m ''content'' (S []))) (memories db)"
  shows "semantic_search ev (Some db) query memory_type limit threshold = Inr []"
proof -
  define q where "q = (\<lambda>d. mongo_eq (dget d ''archived'') (B False) \<and> type_filter memory_type d)"
  have "list_all (\<lambda>m. \<not> truthy (dget_or m ''content'' (S []))) (filter q (memories db))"
    using assms by (simp add: list_all_iff)
  then have "\<not> list_ex truthy (map (\<lambda>m. dget_or m ''content'' (S [])) (find q (memories db)))"
    by (simp add: find_def list_all_iff list_ex_iff)
  then show ?thesis
    by (simp add: semantic_search_def Let_def q_def)
qed

lemma semantic_search_vectorizer_fails:
  assumes "tfidf_cosine ev query
             (map (\<lambda>m. dget_or m ''content'' (S []))
                (find (\<lambda>d. mongo_eq (dget d ''archived'') (B False) \<and> type_filter memory_type d)
                   (memories db))) = None"
  shows "semantic_search ev (Some db) query memory_type limit threshold = Inr []"
  using assms by (simp add: semantic_search_def Let_def)

lemma analyze_no_events:
  assumes "days_before now days = Inr cutoff" and "list_all (\<lambda>e. \<not> ts_gte e cutoff) (events db)"
  shows "analyze_recent_events ev now millis (Some db) days
           = (Inr \<lparr>found_patterns = [], habits = []\<rparr>, Some db)"
proof -
  have "find (\<lambda>d. ts_gte d cutoff) (events db) = []"
    unfolding find_def using assms(2) by (rule filter_none)
  then show ?thesis
    by (simp add: analyze_recent_events_def assms(1) sort_asc_def sort_desc_def)
qed

lemma ex_blank_eq:
  "ex_blank = Some (ex_empty\<lparr>memories :=
     [[(''memory_id'', S ''mem_3''), (''type'', S ''conversation''), (''content'', S []),
       (''timestamp'', T ex_now), (''context'', D []), (''tags'', L []),
       (''importance'', S ''medium''), (''relevance_score'', R 1), (''expiry_date'', Null),
       (''archived'', B False), (''access_count'', I 0), (''last_accessed'', Null)]]\<rparr>)"
  by (simp add: ex_blank_def save_memory_def insert_one_def ex_empty_def str_nat.simps digit_char_def)

lemma ex_stop_words_eq:
  "ex_stop_words = Some (ex_empty\<lparr>memories :=
     [[(''memory_id'', S ''mem_4''), (''type'', S ''conversation''), (''content'', S ''the and of''),
       (''timestamp'', T ex_now), (''context'', D []), (''tags'', L []),
       (''importance'', S ''medium''), (''relevance_score'', R 1), (''expiry_date'', Null),
       (''archived'', B False), (''access_count'', I 0), (''last_accessed'', Null)]]\<rparr>)"
  by (simp add: ex_stop_words_def save_memory_def insert_one_def ex_empty_def str_nat.simps
        digit_char_def)

lemma ex_old_event_eq:
  "ex_old_event = Some (ex_empty\<lparr>events :=
     [[(''event_id'', S ''evt_5''), (''event_type'', S ''app_opened''),
       (''event_data'', D [(''app_name'', S ''Chrome'')]),
       (''timestamp'', T (ex_now - 30 * day_us)),
       (''time_of_day'', S (get_time_period (ex_now - 30 * day_us))),
       (''day_of_week'', S (weekday_name (ex_now - 30 * day_us))),
       (''analyzed'', B False)]]\<rparr>)"
  by (simp add: ex_old_event_def record_event_def insert_one_def ex_empty_def str_nat.simps digit_char_def)

text \<open>
  Claim C7. With a database configured, \<^verbatim>\<open>semantic_search\<close> answers with success
  and an empty list when no unarchived memory of the type asked is stored (an empty
  corpus among them), when every stored content is empty, and when fitting the
  vectoriser raises; \<^verbatim>\<open>analyze_recent_events\<close> answers with success, no patterns
  and no habits, and leaves the store alone, when no event lies in a window that the
  calendar can hold. Both methods are total: an exception is a failure result.
\<close>

theorem degenerate_inputs_give_empty_success:
  "(list_all (\<lambda>d. \<not> (mongo_eq (dget d ''archived'') (B False) \<and> type_filter memory_type d))
       (memories db)
      \<longrightarrow> semantic_search ev (Some db) query memory_type limit threshold = Inr [])
   \<and> (list_all (\<lambda>m. \<not> truthy (dget_or m ''content'' (S []))) (memories db)
        \<longrightarrow> semantic_search ev (Some db) query memory_type limit threshold = Inr [])
   \<and> (tfidf_cosine ev query
          (map (\<lambda>m. dget_or m ''content'' (S []))
             (find (\<lambda>d. mongo_eq (dget d ''archived'') (B False) \<and> type_filter memory_type d)
                (memories db))) = None
        \<longrightarrow> semantic_search ev (Some db) query memory_type limit threshold = Inr [])
   \<and> (days_before now days = Inr cutoff \<and> list_all (\<lambda>e. \<not> ts_gte e cutoff) (events db)
        \<longrightarrow> analyze_recent_events ev now millis (Some db) days
              = (Inr \<lparr>found_patterns = [], habits = []\<rparr>, Some db))"
proof (intro conjI impI)
  assume "list_all (\<lambda>d. \<not> (mongo_eq (dget d ''archived'') (B False) \<and> type_filter memory_type d))
       (memories db)"
  then show "semantic_search ev (Some db) query memory_type limit threshold = Inr []"
    by (rule semantic_search_no_active)
next
  assume "list_all (\<lambda>m. \<not> truthy (dget_or m ''content'' (S []))) (memories db)"
  then show "semantic_search ev (Some db) query memory_type limit threshold = Inr []"
    by (rule semantic_search_blank)
next
  assume "tfidf_cosine ev query
          (map (\<lambda>m. dget_or m ''content'' (S []))
             (find (\<lambda>d. mongo_eq (dget d ''archived'') (B False) \<and> type_filter memory_type d)
                (memories db))) = None"
  then show "semantic_search ev (Some db) query memory_type limit threshold = Inr []"
    by (rule semantic_search_vectorizer_fails)
next
  assume "days_before now days = Inr cutoff \<and> list_all (\<lambda>e. \<not> ts_gte e cutoff) (events db)"
  then show "analyze_recent_events ev now millis (Some db) days
              = (Inr \<lparr>found_patterns = [], habits = []\<rparr>, Some db)"
    using analyze_no_events by blast
qed

theorem degenerate_inputs_give_empty_success_witness:
  "semantic_search ex_env (Some ex_empty) ''rain'' None 20 (3 / 10) = Inr []
   \<and> semantic_search ex_env ex_blank ''rain'' None 20 (3 / 10) = Inr []
   \<and> semantic_search ex_env ex_stop_words ''it is'' None 20 (3 / 10) = Inr []
   \<and> analyze_recent_events ex_env ex_now 9 (Some ex_empty) 7
       = (Inr \<lparr>found_patterns = [], habits = []\<rparr>, Some ex_empty)
   \<and> analyze_recent_events ex_env ex_now 9 ex_old_event 7
       = (Inr \<lparr>found_patterns = [], habits = []\<rparr>, ex_old_event)"
proof -
  note D = degenerate_inputs_give_empty_success
  have c: "days_before ex_now 7 = Inr (ex_now - 7 * day_us)" by (simp add: ex_cutoff)
  have 1: "semantic_search ex_env (Some ex_empty) ''rain'' None 20 (3 / 10) = Inr []"
    using D[of None ex_empty ex_env "''rain''" 20 "3 / 10"] by (simp add: ex_empty_def)
  obtain bl where bl: "ex_blank = Some bl" and blm: "memories bl =
     [[(''memory_id'', S ''mem_3''), (''type'', S ''conversation''), (''content'', S []),
       (''timestamp'', T ex_now), (''context'', D []), (''tags'', L []),
       (''importance'', S ''medium''), (''relevance_score'', R 1), (''expiry_date'', Null),
       (''archived'', B False), (''access_count'', I 0), (''last_accessed'', Null)]]"
    by (simp add: ex_blank_eq)
  have "list_all (\<lambda>m. \<not> truthy (dget_or m ''content'' (S []))) (memories bl)"
    by (simp add: blm dget_or_def)
  with D[of None bl ex_env "''rain''" 20 "3 / 10"]
  have 2: "semantic_search ex_env ex_blank ''rain'' None 20 (3 / 10) = Inr []"
    unfolding bl by blast
  obtain sw where sw: "ex_stop_words = Some sw" and swm: "memories sw =
     [[(''memory_id'', S ''mem_4''), (''type'', S ''conversation''), (''content'', S ''the and of''),
       (''timestamp'', T ex_now), (''context'', D []), (''tags'', L []),
       (''importance'', S ''medium''), (''relevance_score'', R 1), (''expiry_date'', Null),
       (''archived'', B False), (''access_count'', I 0), (''last_accessed'', Null)]]"
    by (simp add: ex_stop_words_eq)
  have "tfidf_cosine ex_env ''it is''
          (map (\<lambda>m. dget_or m ''content'' (S []))
             (find (\<lambda>d. mongo_eq (dget d ''archived'') (B False) \<and> type_filter None d)
                (memories sw))) = None"
    by (simp add: swm ex_env_def ex_tfidf_def find_def mongo_eq_def dget_def dget_or_def
          type_filter_def)
  with D[of None sw ex_env "''it is''" 20 "3 / 10"]
  have 3: "semantic_search ex_env ex_stop_words ''it is'' None 20 (3 / 10) = Inr []"
    unfolding sw by blast
  have "days_before ex_now 7 = Inr (ex_now - 7 * day_us)
          \<and> list_all (\<lambda>e. \<not> ts_gte e (ex_now - 7 * day_us)) (events ex_empty)"
    by (simp add: c ex_empty_def)
  with D[of None ex_empty ex_env "''rain''" 20 "3 / 10" ex_now 7 "ex_now - 7 * day_us" 9]
  have 4: "analyze_recent_events ex_env ex_now 9 (Some ex_empty) 7
       = (Inr \<lparr>found_patterns = [], habits = []\<rparr>, Some ex_empty)"
    by blast
  obtain oe where oe: "ex_old_event = Some oe" and oev: "events oe =
     [[(''event_id'', S ''evt_5''), (''event_type'', S ''app_opened''),
       (''event_data'', D [(''app_name'', S ''Chrome'')]),
       (''timestamp'', T (ex_now - 30 * day_us)),
       (''time_of_day'', S (get_time_period (ex_now - 30 * day_us))),
       (''day_of_week'', S (weekday_name (ex_now - 30 * day_us))),
       (''analyzed'', B False)]]"
    by (simp add: ex_old_event_eq)
  have "days_before ex_now 7 = Inr (ex_now - 7 * day_us)
          \<and> list_all (\<lambda>e. \<not> ts_gte e (ex_now - 7 * day_us)) (events oe)"
    by (simp add: c oev ts_gte_def dget_def day_us_def)
  with D[of None oe ex_env "''rain''" 20 "3 / 10" ex_now 7 "ex_now - 7 * day_us" 9]
  have 5: "analyze_recent_events ex_env ex_now 9 ex_old_event 7
       = (Inr \<lparr>found_patterns = [], habits = []\<rparr>, ex_old_event)"
    unfolding oe by blast
  show ?thesis using 1 2 3 4 5 by (intro conjI)
qed

section \<open>Mining patterns from events\<close>

lemma ex_chrome_eq:
  "ex_chrome = Some (ex_empty\<lparr>events :=
     [ex_chrome_event ''evt_11'' 180, ex_chrome_event ''evt_12'' 120, ex_chrome_event ''evt_13'' 60]\<rparr>)"
  by (simp add: ex_chrome_def record_event_def insert_one_def ex_empty_def str_nat.simps digit_char_def
        ex_chrome_event_def get_time_period_def weekday_name_def ex_now_def day_us_def)


lemma surfaced_without_confidence:
  "dget p ''confidence'' = None \<Longrightarrow> surfaced threshold (p # ps) = Inl (KeyError ''confidence'')"
  by (simp add: dsub_def dget_def)

lemma ex_chrome_sequences:
  "detect_sequential_patterns ex_env
     [ex_chrome_event ''evt_11'' 180, ex_chrome_event ''evt_12'' 120, ex_chrome_event ''evt_13'' 60]
     = Inr [[(''pattern_type'', S ''sequential''),
             (''description'', S (''Chrome'' @ arrow @ ''Chrome'')),
             (''occurrences'', I 2),
             (''confidence_score'', R (8 / 10))]]"
  by (simp add: detect_sequential_patterns_def ex_chrome_event_def dget_def dget_or_def
        app_name_of_def event_data_get_def within_five_minutes_def py_str_def counter_def
        sequential_pattern_def arrow_def)

lemma ex_chrome_sorted:
  "sort_asc (\<lambda>a b. opt_lt a b) ts_key
     (find (\<lambda>d. ts_gte d (ex_now - 7 * day_us))
        [ex_chrome_event ''evt_11'' 180, ex_chrome_event ''evt_12'' 120, ex_chrome_event ''evt_13'' 60])
     = [ex_chrome_event ''evt_11'' 180, ex_chrome_event ''evt_12'' 120, ex_chrome_event ''evt_13'' 60]"
proof -
  have k: "ts_key (ex_chrome_event i s) = Some (ex_now - s * 1000000)" for i s
    by (simp add: ts_key_def ex_chrome_event_def dget_def)
  have g: "ts_gte (ex_chrome_event i s) c = (c \<le> ex_now - s * 1000000)" for i s c
    by (simp add: ts_gte_def ex_chrome_event_def dget_def)
  show ?thesis
    by (simp add: find_def g day_us_def sort_asc_def sort_desc_def k opt_lt_def)
qed

lemma surfaced_Inr:
  "list_all (\<lambda>p. dget p ''confidence'' = None) ps \<Longrightarrow> surfaced threshold ps = Inr qs
     \<Longrightarrow> ps = [] \<and> qs = []"
  by (cases ps) (simp_all add: dsub_def dget_def)

lemma sequential_pattern_keys: "dget (sequential_pattern sc) ''confidence'' = None"
  by (cases sc) (simp add: sequential_pattern_def dget_def)

lemma time_pattern_keys: "dget (time_pattern ev tp n ec) ''confidence'' = None"
  by (cases ec) (simp add: time_pattern_def dget_def)

lemma frequency_pattern_keys: "dget (frequency_pattern ev n ec) ''confidence'' = None"
  by (cases ec) (simp add: frequency_pattern_def dget_def)

lemma sequential_patterns_keys:
  "detect_sequential_patterns ev evs = Inr ps \<Longrightarrow> list_all (\<lambda>p. dget p ''confidence'' = None) ps"
  by (auto simp: detect_sequential_patterns_def Let_def list_all_iff sequential_pattern_keys
        split: if_splits sum.splits)

lemma time_patterns_of_keys:
  "time_patterns_of ev g = Inr ps \<Longrightarrow> list_all (\<lambda>p. dget p ''confidence'' = None) ps"
  by (induction g arbitrary: ps)
     (auto simp: list_all_iff time_pattern_keys split: if_splits sum.splits)

lemma time_patterns_keys:
  "detect_time_patterns ev evs = Inr ps \<Longrightarrow> list_all (\<lambda>p. dget p ''confidence'' = None) ps"
  unfolding detect_time_patterns_def Let_def
  by (auto dest: time_patterns_of_keys split: if_splits)

lemma frequency_patterns_keys:
  "detect_frequency_patterns ev evs = Inr ps \<Longrightarrow> list_all (\<lambda>p. dget p ''confidence'' = None) ps"
  by (auto simp: detect_frequency_patterns_def Let_def list_all_iff frequency_pattern_keys
        split: if_splits)

lemma detect_patterns_surfaces_nothing:
  assumes "detect_patterns ev evs = Inr ps"
  shows "ps = [] \<and> detect_sequential_patterns ev evs = Inr []
         \<and> detect_time_patterns ev evs = Inr [] \<and> detect_frequency_patterns ev evs = Inr []"
proof -
  from assms obtain s1 p1 s2 p2 s3 p3 where
    d1: "detect_sequential_patterns ev evs = Inr s1" and f1: "surfaced (7 / 10) s1 = Inr p1" and
    d2: "detect_time_patterns ev evs = Inr s2" and f2: "surfaced (6 / 10) s2 = Inr p2" and
    d3: "detect_frequency_patterns ev evs = Inr s3" and f3: "surfaced (6 / 10) s3 = Inr p3" and
    ps: "ps = p1 @ p2 @ p3"
    unfolding detect_patterns_def by (auto split: sum.splits)
  from surfaced_Inr[OF sequential_patterns_keys[OF d1] f1] have 1: "s1 = []" "p1 = []" by simp_all
  from surfaced_Inr[OF time_patterns_keys[OF d2] f2] have 2: "s2 = []" "p2 = []" by simp_all
  from surfaced_Inr[OF frequency_patterns_keys[OF d3] f3] have 3: "s3 = []" "p3 = []" by simp_all
  show ?thesis using d1 d2 d3 1 2 3 ps by simp
qed

text \<open>
  Claim C4 asks that a pair of apps opened in sequence twice or more within five
  minutes is surfaced with confidence \<open>min(0.95, 0.7 + occurrences * 0.05)\<close>. The
  detector builds that pattern, under the key \<^verbatim>\<open>confidence_score\<close>; the loop that
  surfaces reads \<^verbatim>\<open>pattern["confidence"]\<close>, which raises \<^verbatim>\<open>KeyError\<close>, and
  \<^verbatim>\<open>analyze_recent_events\<close> answers with a failure. Chrome opened three times a
  minute apart: the pair occurs twice, its pattern has confidence 0.8, and the analysis
  fails.
\<close>

theorem analyze_recent_events_fails_on_repeated_pair:
  "analyze_recent_events ex_env ex_now 14 ex_chrome 7
     = (Inl (Raised (KeyError ''confidence'')), ex_chrome)
   \<and> (case ex_chrome of
         None \<Rightarrow> Inr []
       | Some db \<Rightarrow> detect_sequential_patterns ex_env (events db))
       = Inr [[(''pattern_type'', S ''sequential''),
               (''description'', S (''Chrome'' @ arrow @ ''Chrome'')),
               (''occurrences'', I 2),
               (''confidence_score'', R (8 / 10))]]"
proof -
  have c: "days_before ex_now 7 = Inr (ex_now - 7 * day_us)" by (simp add: ex_cutoff)
  have d: "detect_patterns ex_env
             [ex_chrome_event ''evt_11'' 180, ex_chrome_event ''evt_12'' 120, ex_chrome_event ''evt_13'' 60]
             = Inl (KeyError ''confidence'')"
    by (simp add: detect_patterns_def ex_chrome_sequences dsub_def)
  have a: "analyze_recent_events ex_env ex_now 14 ex_chrome 7
     = (Inl (Raised (KeyError ''confidence'')), ex_chrome)"
    by (simp add: ex_chrome_eq analyze_recent_events_def c ex_chrome_sorted d)
  have b: "(case ex_chrome of
         None \<Rightarrow> Inr []
       | Some db \<Rightarrow> detect_sequential_patterns ex_env (events db))
       = Inr [[(''pattern_type'', S ''sequential''),
               (''description'', S (''Chrome'' @ arrow @ ''Chrome'')),
               (''occurrences'', I 2),
               (''confidence_score'', R (8 / 10))]]"
    by (simp add: ex_chrome_eq ex_chrome_sequences)
  show ?thesis using a b by (rule conjI)
qed

section \<open>Inferring preferences from behaviour\<close>

lemma ex_five_eq:
  "ex_five = Some (ex_empty\<lparr>memories :=
     [ex_conversation ''mem_21'' ''hello there'', ex_conversation ''mem_22'' ''what is the weather'',
      ex_conversation ''mem_23'' ''open chrome'', ex_conversation ''mem_24'' ''thanks'',
      ex_conversation ''mem_25'' ''good night'']\<rparr>)"
  by (simp add: ex_five_def save_memory_def insert_one_def ex_empty_def str_nat.simps digit_char_def
        ex_conversation_def)

lemma no_events_no_inference:
  "events db = [] \<Longrightarrow> analyze_app_preferences ev db c = []"
  "events db = [] \<Longrightarrow> analyze_time_preferences ev db c = []"
  "events db = [] \<Longrightarrow> analyze_command_preferences ev db c = []"
  by (simp_all add: analyze_app_preferences_def analyze_time_preferences_def
        analyze_command_preferences_def find_def)

lemma interaction_needs_memory_type:
  assumes "list_all (\<lambda>d. dget d ''memory_type'' = None) (memories db)"
  shows "analyze_interaction_preferences ev db c = []"
proof -
  have "list_all (\<lambda>d. \<not> (ts_gte d c \<and> mongo_eq (dget d ''memory_type'') (S ''conversation'')))
          (memories db)"
    using assms by (simp add: list_all_iff mongo_eq_def)
  then have "find (\<lambda>d. ts_gte d c \<and> mongo_eq (dget d ''memory_type'') (S ''conversation''))
               (memories db) = []"
    unfolding find_def by (rule filter_none)
  then show ?thesis by (simp add: analyze_interaction_preferences_def)
qed

text \<open>
  Claim C8 asks that five conversation memories in the window yield an interaction
  style that is stored as an inferred preference. \<^verbatim>\<open>save_memory\<close> writes the type
  under the key \<^verbatim>\<open>type\<close>; the analyser asks the collection for
  \<^verbatim>\<open>memory_type\<close>, which no saved memory has, finds nothing and infers nothing.
  Five short turns saved within the window: no pattern, nothing learned, no
  \<^verbatim>\<open>interaction/response_style\<close> in the store.
\<close>

theorem saved_conversations_yield_no_style:
  "conversations_in_window ex_five (ex_now - 14 * day_us) = 5
   \<and> analyze_behavior_for_preferences ex_env ex_now 30 ex_five 14
       = (Inr \<lparr>patterns_detected = 0, preferences_learned = 0, patterns = []\<rparr>, ex_five)
   \<and> stored_field (snd (analyze_behavior_for_preferences ex_env ex_now 30 ex_five 14))
        ''interaction'' ''response_style'' ''value'' = None"
proof -
  let ?db = "ex_empty\<lparr>memories :=
     [ex_conversation ''mem_21'' ''hello there'', ex_conversation ''mem_22'' ''what is the weather'',
      ex_conversation ''mem_23'' ''open chrome'', ex_conversation ''mem_24'' ''thanks'',
      ex_conversation ''mem_25'' ''good night'']\<rparr>"
  have c: "days_before ex_now 14 = Inr (ex_now - 14 * day_us)" by (simp add: ex_cutoff)
  have f: "dget (ex_conversation i s) ''memory_type'' = None"
          "dget (ex_conversation i s) ''type'' = Some (S ''conversation'')"
          "ts_gte (ex_conversation i s) (ex_now - 14 * day_us)" for i s
    by (simp_all add: ex_conversation_def dget_def ts_gte_def day_us_def)
  have w: "conversations_in_window ex_five (ex_now - 14 * day_us) = 5"
    by (simp add: ex_five_eq conversations_in_window_def find_def f)
  have ev: "events ?db = []" by (simp add: ex_empty_def)
  have i: "analyze_interaction_preferences ex_env ?db (ex_now - 14 * day_us) = []"
    by (rule interaction_needs_memory_type) (simp add: f)
  have a: "analyze_behavior_for_preferences ex_env ex_now 30 ex_five 14
       = (Inr \<lparr>patterns_detected = 0, preferences_learned = 0, patterns = []\<rparr>, ex_five)"
    unfolding ex_five_eq
    by (simp add: analyze_behavior_for_preferences_def c no_events_no_inference[OF ev] i)
  have s: "stored_field ex_five ''interaction'' ''response_style'' ''value'' = None"
    by (simp add: ex_five_eq stored_field_def stored_preference_def find_one_def ex_empty_def)
  show ?thesis using w a s by simp
qed


end
